theory Spec2Isabelle
  imports
    Complex_Main
    "HOL-Library.Word"
    "HOL-Library.AList"
    "HOL-Library.Sublist"
    "HOL-Library.Multiset"
    "HOL-Library.Option_ord"
begin

section \<open>JavaScript values\<close>

text \<open>
  The handlers of \<^verbatim>\<open>server.js\<close> read the parsed request body, build plain objects and
  hand them to \<^verbatim>\<open>res.json\<close>. One type of values covers all of them: the JSON values a
  body parser produces, and the two kinds of object the handlers and the store add,
  \<^verbatim>\<open>Date\<close> (\<open>JDate None\<close> is the Invalid Date) and \<^verbatim>\<open>ObjectId\<close> (twelve bytes).
  An object is the list of its own properties; \<open>field\<close> reads a property, and a
  property that is not there reads as \<open>None\<close> (JavaScript's \<^verbatim>\<open>undefined\<close>).
\<close>

type_synonym oid = "96 word"

datatype jsval =
    JNull
  | JBool bool
  | JNum real
  | JStr string
  | JArr "jsval list"
  | JObj "(string \<times> jsval) list"
  | JDate "int option"
  | JOid oid

type_synonym obj = "(string \<times> jsval) list"

definition field :: "obj \<Rightarrow> string \<Rightarrow> jsval option" where
  "field ob k = map_of ob k"

text \<open>
  \<^verbatim>\<open>!x\<close> in the handlers: \<^verbatim>\<open>undefined\<close>, \<^verbatim>\<open>null\<close>, \<^verbatim>\<open>false\<close>, \<^verbatim>\<open>0\<close> and the empty
  string are falsy, every other value is truthy (arrays and objects too, also empty ones).
\<close>

fun truthy :: "jsval option \<Rightarrow> bool" where
  "truthy None = False"
| "truthy (Some JNull) = False"
| "truthy (Some (JBool b)) = b"
| "truthy (Some (JNum n)) = (n \<noteq> 0)"
| "truthy (Some (JStr s)) = (s \<noteq> [])"
| "truthy (Some (JArr xs)) = True"
| "truthy (Some (JObj kvs)) = True"
| "truthy (Some (JDate d)) = True"
| "truthy (Some (JOid i)) = True"

text \<open>\<^verbatim>\<open>ObjectId.toHexString\<close>: the twelve bytes as 24 hexadecimal digits.\<close>

definition hex_digit :: "nat \<Rightarrow> char" where
  "hex_digit n = ''0123456789abcdef'' ! (n mod 16)"

definition oid_hex :: "oid \<Rightarrow> string" where
  "oid_hex w = map (\<lambda>k. hex_digit (unat (drop_bit (4 * k) w) mod 16)) (rev [0..<24])"

section \<open>Errors, requests, the process and the store\<close>

text \<open>A thrown JavaScript error, as far as the handlers look at it: its name and message.\<close>

record js_error =
  err_name :: string
  err_message :: string

definition error_object :: "js_error \<Rightarrow> jsval" where
  "error_object e = JObj [(''name'', JStr (err_name e)), (''message'', JStr (err_message e))]"

text \<open>
  What a request carries for the body parsers: nothing they handle, or an upload of some
  size in bytes together with what decoding it gives (the error of a malformed upload,
  or the decoded value).
\<close>

datatype upload = NoUpload | Upload nat "js_error + jsval"

text \<open>
  A request: method, path, the \<^verbatim>\<open>Origin\<close> header, the upload, and \<^verbatim>\<open>req.body\<close>, which
  is \<^verbatim>\<open>undefined\<close> (\<open>None\<close>) until a body parser sets it.
\<close>

record request =
  req_method :: string
  req_url :: string
  req_origin :: "string option"
  req_upload :: upload
  body :: "jsval option"

record response =
  status :: nat
  payload :: jsval

text \<open>
  What the server sends: a status with a JSON body (\<^verbatim>\<open>res.status(..).json(..)\<close>), or a
  status alone (\<^verbatim>\<open>res.end()\<close>).
\<close>

datatype reply = Json response | Ended nat

text \<open>Lines written with \<^verbatim>\<open>console.log\<close> and \<^verbatim>\<open>console.error\<close> (the emoji left out).\<close>

datatype log = Info string "jsval list" | Err string "jsval list"

text \<open>
  \<open>penv\<close> is \<^verbatim>\<open>process.env\<close>. An \<open>ambient\<close> holds what one request reads from outside
  the program: the clock (\<^verbatim>\<open>Date.now\<close>), the identifier \<^verbatim>\<open>new ObjectId()\<close> would give
  a new document, whether an operation sent to MongoDB fails (\<open>fault\<close>: the error the
  driver rejects with, for example when the server cannot be reached), and the figures of
  \<^verbatim>\<open>process.uptime\<close> and \<^verbatim>\<open>process.memoryUsage\<close>.
\<close>

record process =
  penv :: "string \<Rightarrow> string option"

record ambient =
  now :: int
  fresh_oid :: oid
  fault :: "js_error option"
  uptime :: real
  rss :: nat
  heapTotal :: nat
  heapUsed :: nat

text \<open>
  The store: \<^verbatim>\<open>mongoose.connection.readyState\<close> and the two collections, each the list
  of its documents in insertion order.
\<close>

record store =
  readyState :: nat
  enquiries :: "obj list"
  appointments :: "obj list"

section \<open>Library functions\<close>

text \<open>
  The source calls JavaScript built-ins, Mongoose and Express. What they compute is not in
  the repository, so the functions whose results the handlers depend on are parameters of
  the model, and every theorem holds for all of them:
  \<^item> \<open>newDate\<close>: \<^verbatim>\<open>new Date(v)\<close>, which gives a date (milliseconds since the epoch), the
    Invalid Date, or throws (an object whose conversion to a primitive fails);
  \<^item> \<open>castDateText\<close>: Mongoose's cast of a non-empty string to a date;
  \<^item> \<open>castObjectId\<close>: Mongoose's cast of a value to an ObjectId;
  \<^item> \<open>numberToString\<close>, \<open>dateToString\<close>, \<open>toISOString\<close>: the conversions to text;
  \<^item> \<open>errorMessage\<close>: the message of an error that the store or the JavaScript engine
    raises;
  \<^item> \<open>routeMatches\<close>: Express's test whether a request matches a route's method and path.
\<close>

datatype date_ctor = DateValue int | InvalidDate | DateThrows js_error

datatype 'a cast = CastValue 'a | CastNull | CastError

datatype failure =
    CastFailed string
  | Required string
  | DuplicateKey jsval
  | ReadOfMissing string

record lib =
  newDate :: "jsval \<Rightarrow> date_ctor"
  castDateText :: "string \<Rightarrow> int option"
  castObjectId :: "jsval \<Rightarrow> oid cast"
  numberToString :: "real \<Rightarrow> string"
  dateToString :: "int option \<Rightarrow> string"
  toISOString :: "int \<Rightarrow> string"
  errorMessage :: "string \<Rightarrow> failure list \<Rightarrow> string"
  routeMatches :: "string \<Rightarrow> string \<Rightarrow> request \<Rightarrow> bool"

section \<open>Schemas and models\<close>

text \<open>
  A schema is the list of its paths as \<^verbatim>\<open>new mongoose.Schema({...})\<close> declares them: the
  type, whether the path is required, and its default.
\<close>

datatype schema_type = SString | SDate

datatype dflt = NoDefault | DefaultText string | DefaultNow

record path =
  pname :: string
  ptype :: schema_type
  required :: bool
  pdefault :: dflt

definition enquirySchema_v1 :: "path list" where
  "enquirySchema_v1 =
    [\<lparr>pname = ''name'', ptype = SString, required = True, pdefault = NoDefault\<rparr>,
     \<lparr>pname = ''email'', ptype = SString, required = True, pdefault = NoDefault\<rparr>,
     \<lparr>pname = ''phone'', ptype = SString, required = False, pdefault = NoDefault\<rparr>,
     \<lparr>pname = ''subject'', ptype = SString, required = False, pdefault = NoDefault\<rparr>,
     \<lparr>pname = ''message'', ptype = SString, required = True, pdefault = NoDefault\<rparr>,
     \<lparr>pname = ''type'', ptype = SString, required = False, pdefault = DefaultText ''general_enquiry''\<rparr>,
     \<lparr>pname = ''createdAt'', ptype = SDate, required = False, pdefault = DefaultNow\<rparr>]"

definition appointmentSchema_v1 :: "path list" where
  "appointmentSchema_v1 =
    [\<lparr>pname = ''name'', ptype = SString, required = True, pdefault = NoDefault\<rparr>,
     \<lparr>pname = ''email'', ptype = SString, required = True, pdefault = NoDefault\<rparr>,
     \<lparr>pname = ''phone'', ptype = SString, required = True, pdefault = NoDefault\<rparr>,
     \<lparr>pname = ''preferredDate'', ptype = SDate, required = True, pdefault = NoDefault\<rparr>,
     \<lparr>pname = ''preferredTime'', ptype = SString, required = True, pdefault = NoDefault\<rparr>,
     \<lparr>pname = ''purpose'', ptype = SString, required = True, pdefault = NoDefault\<rparr>,
     \<lparr>pname = ''type'', ptype = SString, required = False, pdefault = DefaultText ''appointment_request''\<rparr>,
     \<lparr>pname = ''status'', ptype = SString, required = False, pdefault = DefaultText ''pending''\<rparr>,
     \<lparr>pname = ''createdAt'', ptype = SDate, required = False, pdefault = DefaultNow\<rparr>]"

text \<open>The second variant of the server declares the same two schemas again.\<close>

definition enquirySchema_v2 :: "path list" where
  "enquirySchema_v2 =
    [\<lparr>pname = ''name'', ptype = SString, required = True, pdefault = NoDefault\<rparr>,
     \<lparr>pname = ''email'', ptype = SString, required = True, pdefault = NoDefault\<rparr>,
     \<lparr>pname = ''phone'', ptype = SString, required = False, pdefault = NoDefault\<rparr>,
     \<lparr>pname = ''subject'', ptype = SString, required = False, pdefault = NoDefault\<rparr>,
     \<lparr>pname = ''message'', ptype = SString, required = True, pdefault = NoDefault\<rparr>,
     \<lparr>pname = ''type'', ptype = SString, required = False, pdefault = DefaultText ''general_enquiry''\<rparr>,
     \<lparr>pname = ''createdAt'', ptype = SDate, required = False, pdefault = DefaultNow\<rparr>]"

definition appointmentSchema_v2 :: "path list" where
  "appointmentSchema_v2 =
    [\<lparr>pname = ''name'', ptype = SString, required = True, pdefault = NoDefault\<rparr>,
     \<lparr>pname = ''email'', ptype = SString, required = True, pdefault = NoDefault\<rparr>,
     \<lparr>pname = ''phone'', ptype = SString, required = True, pdefault = NoDefault\<rparr>,
     \<lparr>pname = ''preferredDate'', ptype = SDate, required = True, pdefault = NoDefault\<rparr>,
     \<lparr>pname = ''preferredTime'', ptype = SString, required = True, pdefault = NoDefault\<rparr>,
     \<lparr>pname = ''purpose'', ptype = SString, required = True, pdefault = NoDefault\<rparr>,
     \<lparr>pname = ''type'', ptype = SString, required = False, pdefault = DefaultText ''appointment_request''\<rparr>,
     \<lparr>pname = ''status'', ptype = SString, required = False, pdefault = DefaultText ''pending''\<rparr>,
     \<lparr>pname = ''createdAt'', ptype = SDate, required = False, pdefault = DefaultNow\<rparr>]"

text \<open>
  \<^verbatim>\<open>new Model(input)\<close> reads the schema's paths from the input (other properties are
  dropped), casts each value to the path's type and fills the default of a path the
  input does not have. A value that does not cast is recorded as a failure of its path,
  and so is a required path left without a value; \<^verbatim>\<open>save\<close> raises them as one
  \<^verbatim>\<open>ValidationError\<close> before anything is sent to the database. (The version key
  \<^verbatim>\<open>__v\<close> that Mongoose adds to a document is left out.)

  The String cast keeps a string, prints a number or a boolean, keeps \<^verbatim>\<open>null\<close>, and
  rejects arrays and plain objects (an object with a non-empty string \<^verbatim>\<open>_id\<close> casts to
  that string). The Date cast keeps \<^verbatim>\<open>null\<close>, reads the empty string as \<^verbatim>\<open>null\<close>,
  keeps a \<^verbatim>\<open>Date\<close> unless it is the Invalid Date, rejects a boolean, and builds a date
  from anything else.
\<close>

fun castString :: "lib \<Rightarrow> jsval \<Rightarrow> string cast" where
  "castString L JNull = CastNull"
| "castString L (JBool b) = CastValue (if b then ''true'' else ''false'')"
| "castString L (JNum n) = CastValue (numberToString L n)"
| "castString L (JStr s) = CastValue s"
| "castString L (JArr xs) = CastError"
| "castString L (JObj kvs) =
     (case field kvs ''_id'' of
        Some (JStr s) \<Rightarrow> if s \<noteq> [] then CastValue s else CastError
      | _ \<Rightarrow> CastError)"
| "castString L (JDate d) = CastValue (dateToString L d)"
| "castString L (JOid i) = CastValue (oid_hex i)"

fun date_of_ctor :: "date_ctor \<Rightarrow> int cast" where
  "date_of_ctor (DateValue t) = CastValue t"
| "date_of_ctor InvalidDate = CastError"
| "date_of_ctor (DateThrows e) = CastError"

fun castDate :: "lib \<Rightarrow> jsval \<Rightarrow> int cast" where
  "castDate L JNull = CastNull"
| "castDate L (JBool b) = CastError"
| "castDate L (JStr s) =
     (if s = [] then CastNull
      else case castDateText L s of Some t \<Rightarrow> CastValue t | None \<Rightarrow> CastError)"
| "castDate L (JDate d) = (case d of Some t \<Rightarrow> CastValue t | None \<Rightarrow> CastError)"
| "castDate L v = date_of_ctor (newDate L v)"

fun cast_path :: "lib \<Rightarrow> schema_type \<Rightarrow> jsval \<Rightarrow> jsval cast" where
  "cast_path L SString v = map_cast JStr (castString L v)"
| "cast_path L SDate v = map_cast (\<lambda>t. JDate (Some t)) (castDate L v)"

text \<open>The \<^verbatim>\<open>required\<close> validator: a non-empty string, respectively a date.\<close>

fun checkRequired :: "schema_type \<Rightarrow> jsval \<Rightarrow> bool" where
  "checkRequired SString (JStr s) = (s \<noteq> [])"
| "checkRequired SDate (JDate (Some t)) = True"
| "checkRequired T v = False"

fun default_of :: "ambient \<Rightarrow> dflt \<Rightarrow> jsval option" where
  "default_of a NoDefault = None"
| "default_of a (DefaultText s) = Some (JStr s)"
| "default_of a DefaultNow = Some (JDate (Some (now a)))"

text \<open>One path of a new document: the property it gets (if any) and its failures.\<close>

definition set_path :: "lib \<Rightarrow> ambient \<Rightarrow> obj \<Rightarrow> path \<Rightarrow> obj \<times> failure list" where
  "set_path L a input p =
    (case field input (pname p) of
       None \<Rightarrow>
         (case default_of a (pdefault p) of
            None \<Rightarrow> ([], if required p then [Required (pname p)] else [])
          | Some v \<Rightarrow> ([(pname p, v)], []))
     | Some raw \<Rightarrow>
         (case cast_path L (ptype p) raw of
            CastValue v \<Rightarrow>
              ([(pname p, v)],
               if required p \<and> \<not> checkRequired (ptype p) v then [Required (pname p)] else [])
          | CastNull \<Rightarrow> ([(pname p, JNull)], if required p then [Required (pname p)] else [])
          | CastError \<Rightarrow> ([], [CastFailed (pname p)])))"

fun build_doc :: "lib \<Rightarrow> ambient \<Rightarrow> obj \<Rightarrow> path list \<Rightarrow> obj \<times> failure list" where
  "build_doc L a input [] = ([], [])"
| "build_doc L a input (p # ps) =
     (fst (set_path L a input p) @ fst (build_doc L a input ps),
      snd (set_path L a input p) @ snd (build_doc L a input ps))"

text \<open>
  Every schema has the path \<^verbatim>\<open>_id\<close> of type ObjectId besides the declared ones: the
  input's \<^verbatim>\<open>_id\<close> is cast when it has one, and a new ObjectId is generated otherwise.
  An \<^verbatim>\<open>_id\<close> that casts to \<^verbatim>\<open>null\<close> is kept: the document is stored with the
  \<^verbatim>\<open>_id\<close> \<^verbatim>\<open>null\<close>.
\<close>

definition doc_id :: "lib \<Rightarrow> ambient \<Rightarrow> obj \<Rightarrow> oid cast" where
  "doc_id L a input =
    (case field input ''_id'' of
       None \<Rightarrow> CastValue (fresh_oid a)
     | Some v \<Rightarrow> castObjectId L v)"

definition doc_failures :: "lib \<Rightarrow> ambient \<Rightarrow> path list \<Rightarrow> obj \<Rightarrow> failure list" where
  "doc_failures L a schema input =
    (case doc_id L a input of CastError \<Rightarrow> [CastFailed ''_id''] | _ \<Rightarrow> [])
    @ snd (build_doc L a input schema)"

definition new_document :: "lib \<Rightarrow> ambient \<Rightarrow> path list \<Rightarrow> obj \<Rightarrow> jsval \<Rightarrow> obj" where
  "new_document L a schema input idv = (''_id'', idv) # fst (build_doc L a input schema)"

definition ids :: "obj list \<Rightarrow> jsval option list" where
  "ids coll = map (\<lambda>d. field d ''_id'') coll"

text \<open>
  The insert of a document with the \<^verbatim>\<open>_id\<close> \<open>idv\<close>: it fails when the operation does
  not reach the database, and when the collection already has a document with this
  \<^verbatim>\<open>_id\<close> (MongoDB's unique index). On success the result is the \<^verbatim>\<open>_id\<close> and the
  collection with the document appended.
\<close>

definition insert_doc :: "lib \<Rightarrow> ambient \<Rightarrow> string \<Rightarrow> path list \<Rightarrow> obj \<Rightarrow> obj list \<Rightarrow> jsval
    \<Rightarrow> js_error + (jsval \<times> obj list)" where
  "insert_doc L a model schema input coll idv =
    (case fault a of
       Some e \<Rightarrow> Inl e
     | None \<Rightarrow>
         if Some idv \<in> set (ids coll) then
           Inl \<lparr>err_name = ''MongoServerError'',
                err_message = errorMessage L model [DuplicateKey idv]\<rparr>
         else
           Inr (idv, coll @ [new_document L a schema input idv]))"

text \<open>
  The \<^verbatim>\<open>_id\<close> a document is saved with: the ObjectId, or \<^verbatim>\<open>null\<close>; none when the
  cast has failed.
\<close>

fun id_value :: "oid cast \<Rightarrow> jsval option" where
  "id_value (CastValue i) = Some (JOid i)"
| "id_value CastNull = Some JNull"
| "id_value CastError = None"

text \<open>
  \<^verbatim>\<open>await new Model(input).save()\<close> on a collection: validation first, then the
  insert. The result is the document's \<^verbatim>\<open>_id\<close> and the collection after it.
\<close>

definition save :: "lib \<Rightarrow> ambient \<Rightarrow> string \<Rightarrow> path list \<Rightarrow> obj \<Rightarrow> obj list
    \<Rightarrow> js_error + (jsval \<times> obj list)" where
  "save L a model schema input coll =
    (if doc_failures L a schema input \<noteq> [] then
       Inl \<lparr>err_name = ''ValidationError'',
            err_message = errorMessage L model (doc_failures L a schema input)\<rparr>
     else
       (case id_value (doc_id L a input) of
          Some idv \<Rightarrow> insert_doc L a model schema input coll idv
        | None \<Rightarrow>
            Inl \<lparr>err_name = ''ValidationError'',
                 err_message = errorMessage L model (doc_failures L a schema input)\<rparr>))"

text \<open>
  \<^verbatim>\<open>await Model.find().sort({ createdAt: -1 })\<close>: all documents of the collection, the
  latest \<^verbatim>\<open>createdAt\<close> first; a document whose \<^verbatim>\<open>createdAt\<close> is not a date comes after
  all dated ones. MongoDB leaves the order of documents with equal keys open; here the
  later inserted one comes first.
\<close>

definition created_key :: "obj \<Rightarrow> int option" where
  "created_key d = (case field d ''createdAt'' of Some (JDate (Some t)) \<Rightarrow> Some t | _ \<Rightarrow> None)"

definition sort_created_desc :: "obj list \<Rightarrow> obj list" where
  "sort_created_desc coll = rev (sort_key created_key coll)"

definition find_sorted :: "ambient \<Rightarrow> obj list \<Rightarrow> js_error + obj list" where
  "find_sorted a coll =
    (case fault a of
       Some e \<Rightarrow> Inl e
     | None \<Rightarrow> Inr (sort_created_desc coll))"


section \<open>The server, first variant\<close>

text \<open>
  \<^verbatim>\<open>src/skm-chambers-backend/server.js\<close> holds two variants of the server; the first
  one is the production-ready one. Each handler gives the response, the store after it
  and the lines it logged. \<^verbatim>\<open>app.listen\<close> and the signal handlers are not part of the
  model.
\<close>

text \<open>
  An environment variable is truthy when it is set and not empty; \<^verbatim>\<open>x || d\<close> is its
  value then and \<open>d\<close> otherwise.
\<close>

definition env_set :: "string option \<Rightarrow> bool" where
  "env_set v = (case v of Some s \<Rightarrow> s \<noteq> [] | None \<Rightarrow> False)"

definition env_or :: "string option \<Rightarrow> string \<Rightarrow> string" where
  "env_or v d = (case v of Some s \<Rightarrow> if s \<noteq> [] then s else d | None \<Rightarrow> d)"

definition isProduction :: "process \<Rightarrow> bool" where
  "isProduction P = (penv P ''NODE_ENV'' = Some ''production'')"

text \<open>
  \<^verbatim>\<open>getMongoURI\<close>: \<open>Inr\<close> is the connection string it returns, \<open>Inl\<close> the code of
  \<^verbatim>\<open>process.exit\<close>. \<open>startup_v1\<close> is what the process does with it at start: it
  exits, or goes on to \<^verbatim>\<open>mongoose.connect\<close> with that string.
\<close>

definition getMongoURI :: "process \<Rightarrow> nat + string" where
  "getMongoURI P =
    (if env_set (penv P ''MONGODB_URI'') then Inr (env_or (penv P ''MONGODB_URI'') [])
     else if \<not> isProduction P then Inr ''mongodb://127.0.0.1:27017/skm-chambers''
     else Inl 1)"

datatype startup = ProcessExit nat | Connecting string

definition startup_v1 :: "process \<Rightarrow> startup" where
  "startup_v1 P = (case getMongoURI P of Inl code \<Rightarrow> ProcessExit code | Inr uri \<Rightarrow> Connecting uri)"

text \<open>\<^verbatim>\<open>new Date(x)\<close> where \<open>x\<close> may be \<^verbatim>\<open>undefined\<close>, which gives the Invalid Date.\<close>

fun new_Date :: "lib \<Rightarrow> jsval option \<Rightarrow> date_ctor" where
  "new_Date L None = InvalidDate"
| "new_Date L (Some v) = newDate L v"

definition logged :: "log \<Rightarrow> response \<times> store \<times> log list \<Rightarrow> response \<times> store \<times> log list" where
  "logged l r = (fst r, fst (snd r), l # snd (snd r))"

text \<open>
  The middleware registered before the routes. \<^verbatim>\<open>cors(corsOptions)\<close> comes first: the
  options choose the headers it sets (which the model leaves out), and since neither
  variant sets \<^verbatim>\<open>preflightContinue\<close>, it ends every request of method OPTIONS itself,
  with \<^verbatim>\<open>optionsSuccessStatus\<close> 204 and no body.
\<close>

definition cors_preflight :: "request \<Rightarrow> bool" where
  "cors_preflight req = (req_method req = ''OPTIONS'')"

text \<open>
  \<^verbatim>\<open>express.json\<close> and \<^verbatim>\<open>express.urlencoded\<close> with a limit in bytes: an upload over
  the limit and a malformed one are errors, passed to the error-handling middleware; an
  accepted one becomes \<^verbatim>\<open>req.body\<close>; and without an upload that a parser handles,
  \<^verbatim>\<open>req.body\<close> stays \<^verbatim>\<open>undefined\<close> (Express 5, for which the source is written).
\<close>

definition parse_body :: "nat \<Rightarrow> upload \<Rightarrow> js_error + jsval option" where
  "parse_body limit u =
    (case u of
       NoUpload \<Rightarrow> Inr None
     | Upload n decoded \<Rightarrow>
         if limit < n then
           Inl \<lparr>err_name = ''PayloadTooLargeError'', err_message = ''request entity too large''\<rparr>
         else (case decoded of Inl e \<Rightarrow> Inl e | Inr v \<Rightarrow> Inr (Some v)))"

text \<open>The error-handling middleware, registered last.\<close>

definition error_handler :: "process \<Rightarrow> js_error \<Rightarrow> response" where
  "error_handler P e =
    \<lparr>status = 500, payload = JObj
      [(''error'', JStr ''Internal server error''),
       (''message'', JStr (if penv P ''NODE_ENV'' = Some ''development'' then err_message e
                           else ''Something went wrong''))]\<rparr>"

text \<open>
  The handlers read \<^verbatim>\<open>req.body.name\<close> first. Reading a property of \<^verbatim>\<open>undefined\<close> or
  \<^verbatim>\<open>null\<close> throws a \<^verbatim>\<open>TypeError\<close>; otherwise the reads give the body's own
  properties, and a body that is not a plain object (an array) has none of the properties
  the handlers read.
\<close>

fun read_body :: "lib \<Rightarrow> jsval option \<Rightarrow> string \<Rightarrow> js_error + obj" where
  "read_body L None k =
     Inl \<lparr>err_name = ''TypeError'', err_message = errorMessage L ''undefined'' [ReadOfMissing k]\<rparr>"
| "read_body L (Some JNull) k =
     Inl \<lparr>err_name = ''TypeError'', err_message = errorMessage L ''null'' [ReadOfMissing k]\<rparr>"
| "read_body L (Some (JObj kvs)) k = Inr kvs"
| "read_body L (Some v) k = Inr []"

definition request_log_v1 :: "lib \<Rightarrow> ambient \<Rightarrow> request \<Rightarrow> log" where
  "request_log_v1 L a req =
    Info (toISOString L (now a) @ '' - '' @ req_method req @ '' '' @ req_url req
          @ '' - Origin: '' @ env_or (req_origin req) ''unknown'') []"

text \<open>
  A create handler: \<open>enquiry_block\<close> is the \<^verbatim>\<open>try\<close> block (\<open>Inl\<close> is the error it
  throws), and the handler answers a thrown error in its \<^verbatim>\<open>catch\<close>.
\<close>

definition enquiry_block_v1 :: "lib \<Rightarrow> ambient \<Rightarrow> request \<Rightarrow> store
    \<Rightarrow> js_error + (response \<times> store \<times> log list)" where
  "enquiry_block_v1 L a req s =
    (case read_body L (body req) ''name'' of
       Inl e \<Rightarrow> Inl e
     | Inr b \<Rightarrow>
         if \<not> truthy (field b ''name'') \<or> \<not> truthy (field b ''email'')
            \<or> \<not> truthy (field b ''message'')
         then
           Inr (\<lparr>status = 400, payload = JObj
                  [(''error'', JStr ''Missing required fields: name, email, and message are required'')]\<rparr>,
                s,
                [])
         else
           (case save L a ''Enquiry'' enquirySchema_v1 b (enquiries s) of
              Inl e \<Rightarrow> Inl e
            | Inr (idv, coll) \<Rightarrow>
                Inr (\<lparr>status = 201, payload = JObj
                       [(''success'', JBool True),
                        (''message'', JStr ''Enquiry submitted successfully''),
                        (''id'', idv)]\<rparr>,
                     s\<lparr>enquiries := coll\<rparr>,
                     [Info ''Enquiry saved with ID:'' [idv]])))"

definition post_enquiry_v1 :: "lib \<Rightarrow> ambient \<Rightarrow> request \<Rightarrow> store
    \<Rightarrow> response \<times> store \<times> log list" where
  "post_enquiry_v1 L a req s =
    logged (Info ''Enquiry form data received'' [])
      (case enquiry_block_v1 L a req s of
         Inr r \<Rightarrow> r
       | Inl e \<Rightarrow>
           (if err_name e = ''ValidationError'' then
              \<lparr>status = 400, payload = JObj
                [(''error'', JStr ''Validation error''),
                 (''details'', JStr (err_message e))]\<rparr>
            else
              \<lparr>status = 500, payload = JObj
                [(''error'', JStr ''Failed to submit enquiry''),
                 (''details'', JStr (err_message e))]\<rparr>,
            s,
            [Err ''Error saving enquiry:'' [JStr (err_message e)]]))"

definition try_appointment_v1 :: "lib \<Rightarrow> ambient \<Rightarrow> obj \<Rightarrow> obj list
    \<Rightarrow> js_error + (jsval \<times> obj list)" where
  "try_appointment_v1 L a b coll =
    (case new_Date L (field b ''preferredDate'') of
       DateThrows e \<Rightarrow> Inl e
     | DateValue t \<Rightarrow>
         save L a ''Appointment'' appointmentSchema_v1
           (AList.update ''preferredDate'' (JDate (Some t)) b) coll
     | InvalidDate \<Rightarrow>
         save L a ''Appointment'' appointmentSchema_v1
           (AList.update ''preferredDate'' (JDate None) b) coll)"

definition appointment_block_v1 :: "lib \<Rightarrow> ambient \<Rightarrow> request \<Rightarrow> store
    \<Rightarrow> js_error + (response \<times> store \<times> log list)" where
  "appointment_block_v1 L a req s =
    (case read_body L (body req) ''name'' of
       Inl e \<Rightarrow> Inl e
     | Inr b \<Rightarrow>
         if \<not> truthy (field b ''name'') \<or> \<not> truthy (field b ''email'')
            \<or> \<not> truthy (field b ''phone'')
            \<or> \<not> truthy (field b ''preferredDate'')
            \<or> \<not> truthy (field b ''preferredTime'')
            \<or> \<not> truthy (field b ''purpose'')
         then
           Inr (\<lparr>status = 400, payload = JObj [(''error'', JStr ''Missing required fields'')]\<rparr>,
                s,
                [])
         else
           (case try_appointment_v1 L a b (appointments s) of
              Inl e \<Rightarrow> Inl e
            | Inr (idv, coll) \<Rightarrow>
                Inr (\<lparr>status = 201, payload = JObj
                       [(''success'', JBool True),
                        (''message'', JStr ''Appointment request submitted successfully''),
                        (''id'', idv)]\<rparr>,
                     s\<lparr>appointments := coll\<rparr>,
                     [Info ''Appointment saved with ID:'' [idv]])))"

definition post_appointment_v1 :: "lib \<Rightarrow> ambient \<Rightarrow> request \<Rightarrow> store
    \<Rightarrow> response \<times> store \<times> log list" where
  "post_appointment_v1 L a req s =
    logged (Info ''Appointment form data received'' [])
      (case appointment_block_v1 L a req s of
         Inr r \<Rightarrow> r
       | Inl e \<Rightarrow>
           (if err_name e = ''ValidationError'' then
              \<lparr>status = 400, payload = JObj
                [(''error'', JStr ''Validation error''),
                 (''details'', JStr (err_message e))]\<rparr>
            else
              \<lparr>status = 500, payload = JObj
                [(''error'', JStr ''Failed to submit appointment request''),
                 (''details'', JStr (err_message e))]\<rparr>,
            s,
            [Err ''Error saving appointment:'' [JStr (err_message e)]]))"

definition get_enquiries_v1 :: "ambient \<Rightarrow> store \<Rightarrow> response \<times> store \<times> log list" where
  "get_enquiries_v1 a s =
    (case find_sorted a (enquiries s) of
       Inr docs \<Rightarrow>
         (\<lparr>status = 200, payload = JObj
            [(''success'', JBool True),
             (''count'', JNum (real (length docs))),
             (''data'', JArr (map JObj docs))]\<rparr>,
          s,
          [])
     | Inl e \<Rightarrow>
         (\<lparr>status = 500, payload = JObj
            [(''success'', JBool False),
             (''error'', JStr ''Failed to fetch enquiries'')]\<rparr>,
          s,
          [Err ''Error fetching enquiries:'' [error_object e]]))"

definition get_appointments_v1 :: "ambient \<Rightarrow> store \<Rightarrow> response \<times> store \<times> log list" where
  "get_appointments_v1 a s =
    (case find_sorted a (appointments s) of
       Inr docs \<Rightarrow>
         (\<lparr>status = 200, payload = JObj
            [(''success'', JBool True),
             (''count'', JNum (real (length docs))),
             (''data'', JArr (map JObj docs))]\<rparr>,
          s,
          [])
     | Inl e \<Rightarrow>
         (\<lparr>status = 500, payload = JObj
            [(''success'', JBool False),
             (''error'', JStr ''Failed to fetch appointments'')]\<rparr>,
          s,
          [Err ''Error fetching appointments:'' [error_object e]]))"

text \<open>\<^verbatim>\<open>`${Math.round(bytes / 1024 / 1024)} MB`\<close>\<close>

definition megabytes :: "lib \<Rightarrow> nat \<Rightarrow> string" where
  "megabytes L n = numberToString L (of_int (round (real n / 1024 / 1024))) @ '' MB''"

definition health_v1 :: "lib \<Rightarrow> process \<Rightarrow> ambient \<Rightarrow> store \<Rightarrow> response \<times> store \<times> log list" where
  "health_v1 L P a s =
    (\<lparr>status = 200, payload = JObj
       [(''status'', JStr ''OK''),
        (''environment'', JStr (env_or (penv P ''NODE_ENV'') ''development'')),
        (''timestamp'', JStr (toISOString L (now a))),
        (''uptime'', JNum (uptime a)),
        (''database'', JStr (if readyState s = 1 then ''connected'' else ''disconnected'')),
        (''memory'', JObj
          [(''rss'', JStr (megabytes L (rss a))),
           (''heapTotal'', JStr (megabytes L (heapTotal a))),
           (''heapUsed'', JStr (megabytes L (heapUsed a)))]),
        (''endpoints'', JObj
          [(''enquiry'', JStr ''/api/enquiry''),
           (''appointment'', JStr ''/api/appointment''),
           (''enquiries'', JStr ''/api/enquiries''),
           (''appointments'', JStr ''/api/appointments'')])]\<rparr>,
     s,
     [])"

definition root_v1 :: "process \<Rightarrow> store \<Rightarrow> response \<times> store \<times> log list" where
  "root_v1 P s =
    (\<lparr>status = 200, payload = JObj
       [(''message'', JStr ''SKM Chambers API''),
        (''version'', JStr ''1.0.0''),
        (''environment'', JStr (env_or (penv P ''NODE_ENV'') ''development'')),
        (''deployed'', JStr (if isProduction P then ''Yes'' else ''No (Local Development)'')),
        (''endpoints'', JObj
          [(''health'', JStr ''/health''),
           (''submitEnquiry'', JStr ''POST /api/enquiry''),
           (''submitAppointment'', JStr ''POST /api/appointment''),
           (''getEnquiries'', JStr ''GET /api/enquiries''),
           (''getAppointments'', JStr ''GET /api/appointments'')]),
        (''cors'', JObj
          [(''allowedOrigin'', JStr
             (if isProduction P then ''https://courageous-salamander-4e7551.netlify.app''
              else ''* (All origins - development only)''))])]\<rparr>,
     s,
     [])"

definition not_found_v1 :: "store \<Rightarrow> response \<times> store \<times> log list" where
  "not_found_v1 s =
    (\<lparr>status = 404, payload = JObj
       [(''error'', JStr ''Endpoint not found''),
        (''availableEndpoints'', JObj
          [(''root'', JStr ''GET /''),
           (''health'', JStr ''GET /health''),
           (''submitEnquiry'', JStr ''POST /api/enquiry''),
           (''submitAppointment'', JStr ''POST /api/appointment'')])]\<rparr>,
     s,
     [])"

text \<open>
  The logging middleware, then the routes in the order they are registered; the last
  \<^verbatim>\<open>app.use\<close> before the error handler answers whatever no route took.
\<close>

definition router_v1 :: "lib \<Rightarrow> process \<Rightarrow> ambient \<Rightarrow> request \<Rightarrow> store
    \<Rightarrow> response \<times> store \<times> log list" where
  "router_v1 L P a req s =
    logged (request_log_v1 L a req)
      (if routeMatches L ''POST'' ''/api/enquiry'' req then post_enquiry_v1 L a req s
       else if routeMatches L ''POST'' ''/api/appointment'' req then post_appointment_v1 L a req s
       else if routeMatches L ''GET'' ''/api/enquiries'' req then get_enquiries_v1 a s
       else if routeMatches L ''GET'' ''/api/appointments'' req then get_appointments_v1 a s
       else if routeMatches L ''GET'' ''/health'' req then health_v1 L P a s
       else if routeMatches L ''GET'' ''/'' req then root_v1 P s
       else not_found_v1 s)"

text \<open>The whole chain. The limit of the parsers is \<^verbatim>\<open>'10mb'\<close>.\<close>

definition app_v1 :: "lib \<Rightarrow> process \<Rightarrow> ambient \<Rightarrow> request \<Rightarrow> store
    \<Rightarrow> reply \<times> store \<times> log list" where
  "app_v1 L P a req s =
    (if cors_preflight req then (Ended 204, s, [])
     else
       (case parse_body 10485760 (req_upload req) of
          Inl e \<Rightarrow> (Json (error_handler P e), s, [Err ''Server error:'' [error_object e]])
        | Inr b \<Rightarrow>
            (Json (fst (router_v1 L P a (req\<lparr>body := b\<rparr>) s)),
             fst (snd (router_v1 L P a (req\<lparr>body := b\<rparr>) s)),
             snd (snd (router_v1 L P a (req\<lparr>body := b\<rparr>) s)))))"

section \<open>The server, second variant\<close>

text \<open>
  The second variant has no notion of a production mode: it connects to
  \<^verbatim>\<open>process.env.MONGODB_URI || 'mongodb://localhost:27017/skm-chambers'\<close>.
\<close>

definition startup_v2 :: "process \<Rightarrow> startup" where
  "startup_v2 P = Connecting (env_or (penv P ''MONGODB_URI'') ''mongodb://localhost:27017/skm-chambers'')"

definition request_log_v2 :: "lib \<Rightarrow> ambient \<Rightarrow> request \<Rightarrow> log" where
  "request_log_v2 L a req =
    Info (toISOString L (now a) @ '' - '' @ req_method req @ '' '' @ req_url req) []"

text \<open>The second variant logs the body (nothing to print when it is \<^verbatim>\<open>undefined\<close>).\<close>

definition body_args :: "request \<Rightarrow> jsval list" where
  "body_args req = (case body req of Some v \<Rightarrow> [v] | None \<Rightarrow> [])"

definition enquiry_block_v2 :: "lib \<Rightarrow> ambient \<Rightarrow> request \<Rightarrow> store
    \<Rightarrow> js_error + (response \<times> store \<times> log list)" where
  "enquiry_block_v2 L a req s =
    (case read_body L (body req) ''name'' of
       Inl e \<Rightarrow> Inl e
     | Inr b \<Rightarrow>
         if \<not> truthy (field b ''name'') \<or> \<not> truthy (field b ''email'')
            \<or> \<not> truthy (field b ''message'')
         then
           Inr (\<lparr>status = 400, payload = JObj
                  [(''error'', JStr ''Missing required fields: name, email, and message are required'')]\<rparr>,
                s,
                [])
         else
           (case save L a ''Enquiry'' enquirySchema_v2 b (enquiries s) of
              Inl e \<Rightarrow> Inl e
            | Inr (idv, coll) \<Rightarrow>
                Inr (\<lparr>status = 201, payload = JObj
                       [(''success'', JBool True),
                        (''message'', JStr ''Enquiry submitted successfully''),
                        (''id'', idv)]\<rparr>,
                     s\<lparr>enquiries := coll\<rparr>,
                     [Info ''Enquiry saved with ID:'' [idv]])))"

definition post_enquiry_v2 :: "lib \<Rightarrow> ambient \<Rightarrow> request \<Rightarrow> store
    \<Rightarrow> response \<times> store \<times> log list" where
  "post_enquiry_v2 L a req s =
    logged (Info ''Enquiry form data:'' (body_args req))
      (case enquiry_block_v2 L a req s of
         Inr r \<Rightarrow> r
       | Inl e \<Rightarrow>
           (if err_name e = ''ValidationError'' then
              \<lparr>status = 400, payload = JObj
                [(''error'', JStr ''Validation error''),
                 (''details'', JStr (err_message e))]\<rparr>
            else
              \<lparr>status = 500, payload = JObj
                [(''error'', JStr ''Failed to submit enquiry''),
                 (''details'', JStr (err_message e))]\<rparr>,
            s,
            [Err ''Error saving enquiry:'' [JStr (err_message e)]]))"

definition try_appointment_v2 :: "lib \<Rightarrow> ambient \<Rightarrow> obj \<Rightarrow> obj list
    \<Rightarrow> js_error + (jsval \<times> obj list)" where
  "try_appointment_v2 L a b coll =
    (case new_Date L (field b ''preferredDate'') of
       DateThrows e \<Rightarrow> Inl e
     | DateValue t \<Rightarrow>
         save L a ''Appointment'' appointmentSchema_v2
           (AList.update ''preferredDate'' (JDate (Some t)) b) coll
     | InvalidDate \<Rightarrow>
         save L a ''Appointment'' appointmentSchema_v2
           (AList.update ''preferredDate'' (JDate None) b) coll)"

definition appointment_block_v2 :: "lib \<Rightarrow> ambient \<Rightarrow> request \<Rightarrow> store
    \<Rightarrow> js_error + (response \<times> store \<times> log list)" where
  "appointment_block_v2 L a req s =
    (case read_body L (body req) ''name'' of
       Inl e \<Rightarrow> Inl e
     | Inr b \<Rightarrow>
         if \<not> truthy (field b ''name'') \<or> \<not> truthy (field b ''email'')
            \<or> \<not> truthy (field b ''phone'')
            \<or> \<not> truthy (field b ''preferredDate'')
            \<or> \<not> truthy (field b ''preferredTime'')
            \<or> \<not> truthy (field b ''purpose'')
         then
           Inr (\<lparr>status = 400, payload = JObj [(''error'', JStr ''Missing required fields'')]\<rparr>,
                s,
                [])
         else
           (case try_appointment_v2 L a b (appointments s) of
              Inl e \<Rightarrow> Inl e
            | Inr (idv, coll) \<Rightarrow>
                Inr (\<lparr>status = 201, payload = JObj
                       [(''success'', JBool True),
                        (''message'', JStr ''Appointment request submitted successfully''),
                        (''id'', idv)]\<rparr>,
                     s\<lparr>appointments := coll\<rparr>,
                     [Info ''Appointment saved with ID:'' [idv]])))"

definition post_appointment_v2 :: "lib \<Rightarrow> ambient \<Rightarrow> request \<Rightarrow> store
    \<Rightarrow> response \<times> store \<times> log list" where
  "post_appointment_v2 L a req s =
    logged (Info ''Appointment form data:'' (body_args req))
      (case appointment_block_v2 L a req s of
         Inr r \<Rightarrow> r
       | Inl e \<Rightarrow>
           (if err_name e = ''ValidationError'' then
              \<lparr>status = 400, payload = JObj
                [(''error'', JStr ''Validation error''),
                 (''details'', JStr (err_message e))]\<rparr>
            else
              \<lparr>status = 500, payload = JObj
                [(''error'', JStr ''Failed to submit appointment request''),
                 (''details'', JStr (err_message e))]\<rparr>,
            s,
            [Err ''Error saving appointment:'' [JStr (err_message e)]]))"

definition get_enquiries_v2 :: "ambient \<Rightarrow> store \<Rightarrow> response \<times> store \<times> log list" where
  "get_enquiries_v2 a s =
    (case find_sorted a (enquiries s) of
       Inr docs \<Rightarrow>
         (\<lparr>status = 200, payload = JObj
            [(''success'', JBool True),
             (''count'', JNum (real (length docs))),
             (''data'', JArr (map JObj docs))]\<rparr>,
          s,
          [])
     | Inl e \<Rightarrow>
         (\<lparr>status = 500, payload = JObj
            [(''success'', JBool False),
             (''error'', JStr ''Failed to fetch enquiries'')]\<rparr>,
          s,
          [Err ''Error fetching enquiries:'' [error_object e]]))"

definition get_appointments_v2 :: "ambient \<Rightarrow> store \<Rightarrow> response \<times> store \<times> log list" where
  "get_appointments_v2 a s =
    (case find_sorted a (appointments s) of
       Inr docs \<Rightarrow>
         (\<lparr>status = 200, payload = JObj
            [(''success'', JBool True),
             (''count'', JNum (real (length docs))),
             (''data'', JArr (map JObj docs))]\<rparr>,
          s,
          [])
     | Inl e \<Rightarrow>
         (\<lparr>status = 500, payload = JObj
            [(''success'', JBool False),
             (''error'', JStr ''Failed to fetch appointments'')]\<rparr>,
          s,
          [Err ''Error fetching appointments:'' [error_object e]]))"

definition health_v2 :: "lib \<Rightarrow> process \<Rightarrow> ambient \<Rightarrow> store \<Rightarrow> response \<times> store \<times> log list" where
  "health_v2 L P a s =
    (\<lparr>status = 200, payload = JObj
       [(''status'', JStr ''OK''),
        (''timestamp'', JDate (Some (now a))),
        (''database'', JStr (if readyState s = 1 then ''connected'' else ''disconnected'')),
        (''endpoints'', JObj
          [(''enquiry'', JStr ''/api/enquiry''),
           (''appointment'', JStr ''/api/appointment''),
           (''enquiries'', JStr ''/api/enquiries''),
           (''appointments'', JStr ''/api/appointments'')])]\<rparr>,
     s,
     [])"

definition root_v2 :: "process \<Rightarrow> store \<Rightarrow> response \<times> store \<times> log list" where
  "root_v2 P s =
    (\<lparr>status = 200, payload = JObj
       [(''message'', JStr ''SKM Chambers API''),
        (''version'', JStr ''1.0.0''),
        (''endpoints'', JObj
          [(''health'', JStr ''/health''),
           (''submitEnquiry'', JStr ''POST /api/enquiry''),
           (''submitAppointment'', JStr ''POST /api/appointment''),
           (''getEnquiries'', JStr ''GET /api/enquiries''),
           (''getAppointments'', JStr ''GET /api/appointments'')]),
        (''documentation'', JStr ''See /health for detailed status'')]\<rparr>,
     s,
     [])"

definition not_found_v2 :: "store \<Rightarrow> response \<times> store \<times> log list" where
  "not_found_v2 s =
    (\<lparr>status = 404, payload = JObj
       [(''error'', JStr ''Endpoint not found''),
        (''availableEndpoints'', JObj
          [(''root'', JStr ''GET /''),
           (''health'', JStr ''GET /health''),
           (''submitEnquiry'', JStr ''POST /api/enquiry''),
           (''submitAppointment'', JStr ''POST /api/appointment'')])]\<rparr>,
     s,
     [])"

definition router_v2 :: "lib \<Rightarrow> process \<Rightarrow> ambient \<Rightarrow> request \<Rightarrow> store
    \<Rightarrow> response \<times> store \<times> log list" where
  "router_v2 L P a req s =
    logged (request_log_v2 L a req)
      (if routeMatches L ''POST'' ''/api/enquiry'' req then post_enquiry_v2 L a req s
       else if routeMatches L ''POST'' ''/api/appointment'' req then post_appointment_v2 L a req s
       else if routeMatches L ''GET'' ''/api/enquiries'' req then get_enquiries_v2 a s
       else if routeMatches L ''GET'' ''/api/appointments'' req then get_appointments_v2 a s
       else if routeMatches L ''GET'' ''/health'' req then health_v2 L P a s
       else if routeMatches L ''GET'' ''/'' req then root_v2 P s
       else not_found_v2 s)"

text \<open>The parsers of the second variant have the default limit, \<^verbatim>\<open>'100kb'\<close>.\<close>

definition app_v2 :: "lib \<Rightarrow> process \<Rightarrow> ambient \<Rightarrow> request \<Rightarrow> store
    \<Rightarrow> reply \<times> store \<times> log list" where
  "app_v2 L P a req s =
    (if cors_preflight req then (Ended 204, s, [])
     else
       (case parse_body 102400 (req_upload req) of
          Inl e \<Rightarrow> (Json (error_handler P e), s, [Err ''Server error:'' [error_object e]])
        | Inr b \<Rightarrow>
            (Json (fst (router_v2 L P a (req\<lparr>body := b\<rparr>) s)),
             fst (snd (router_v2 L P a (req\<lparr>body := b\<rparr>) s)),
             snd (snd (router_v2 L P a (req\<lparr>body := b\<rparr>) s)))))"

section \<open>A sample library and sample requests\<close>

text \<open>
  To run the model on concrete requests the library functions need an instance. The
  sample one follows JavaScript where the examples below depend on it: \<^verbatim>\<open>new Date\<close> of
  a number is that many milliseconds (within the range of a \<^verbatim>\<open>Date\<close>, fractions cut
  off), and a string of the date-only form \<^verbatim>\<open>YYYY-MM-DD\<close> that names a day of the
  calendar is midnight UTC of that day. It treats every other value as one that gives the
  Invalid Date, accepts as ObjectId the strings of 24 hexadecimal digits, and matches a
  route on equal method and path; the texts it prints are stand-ins.
\<close>

definition digit_of :: "char \<Rightarrow> nat option" where
  "digit_of c =
    (let n = (of_char c :: nat) in if 48 \<le> n \<and> n \<le> 57 then Some (n - 48) else None)"

fun number_of :: "string \<Rightarrow> nat option" where
  "number_of [] = None"
| "number_of cs =
     foldl (\<lambda>acc c. case (acc, digit_of c) of (Some n, Some d) \<Rightarrow> Some (10 * n + d) | _ \<Rightarrow> None)
       (Some 0) cs"

definition leap_year :: "nat \<Rightarrow> bool" where
  "leap_year y = (y mod 4 = 0 \<and> (y mod 100 \<noteq> 0 \<or> y mod 400 = 0))"

definition days_in_month :: "nat \<Rightarrow> nat \<Rightarrow> nat" where
  "days_in_month y m =
    (if m = 2 then (if leap_year y then 29 else 28)
     else if m \<in> {4, 6, 9, 11} then 30 else 31)"

definition days_from_civil :: "nat \<Rightarrow> nat \<Rightarrow> nat \<Rightarrow> int" where
  "days_from_civil y m d =
    (let y' = int y - (if m \<le> 2 then 1 else 0);
         era = y' div 400;
         yoe = y' - era * 400;
         doy = (153 * (int m + (if m > 2 then - 3 else 9)) + 2) div 5 + int d - 1;
         doe = yoe * 365 + yoe div 4 - yoe div 100 + doy
     in era * 146097 + doe - 719468)"

definition iso_date :: "string \<Rightarrow> int option" where
  "iso_date s =
    (if length s = 10 \<and> s ! 4 = CHR ''-'' \<and> s ! 7 = CHR ''-'' then
       (case (number_of (take 4 s), number_of (take 2 (drop 5 s)), number_of (drop 8 s)) of
          (Some y, Some m, Some d) \<Rightarrow>
            if 1 \<le> m \<and> m \<le> 12 \<and> 1 \<le> d \<and> d \<le> days_in_month y m
            then Some (days_from_civil y m d * 86400000) else None
        | _ \<Rightarrow> None)
     else None)"

definition sample_newDate :: "jsval \<Rightarrow> date_ctor" where
  "sample_newDate v =
    (case v of
       JNum n \<Rightarrow>
         if \<bar>n\<bar> \<le> 8640000000000000 then DateValue (if 0 \<le> n then \<lfloor>n\<rfloor> else \<lceil>n\<rceil>)
         else InvalidDate
     | JStr s \<Rightarrow> (case iso_date s of Some t \<Rightarrow> DateValue t | None \<Rightarrow> InvalidDate)
     | _ \<Rightarrow> InvalidDate)"

definition hex_value :: "char \<Rightarrow> nat option" where
  "hex_value c =
    (let n = (of_char c :: nat) in
     if 48 \<le> n \<and> n \<le> 57 then Some (n - 48)
     else if 97 \<le> n \<and> n \<le> 102 then Some (n - 87)
     else if 65 \<le> n \<and> n \<le> 70 then Some (n - 55)
     else None)"

definition sample_castObjectId :: "jsval \<Rightarrow> oid cast" where
  "sample_castObjectId v =
    (case v of
       JNull \<Rightarrow> CastNull
     | JOid i \<Rightarrow> CastValue i
     | JStr s \<Rightarrow>
         if length s = 24 \<and> list_all (\<lambda>c. hex_value c \<noteq> None) s
         then CastValue (foldl (\<lambda>w c. 16 * w + of_nat (the (hex_value c))) 0 s)
         else CastError
     | _ \<Rightarrow> CastError)"

function decimal :: "int \<Rightarrow> string" where
  "decimal n =
     (if n < 10 then [char_of (48 + n)] else decimal (n div 10) @ [char_of (48 + n mod 10)])"
  by pat_completeness auto
termination
  by (relation "measure nat") auto

definition show_int :: "int \<Rightarrow> string" where
  "show_int i = (if i < 0 then ''-'' else []) @ decimal \<bar>i\<bar>"

definition quoted :: "string \<Rightarrow> string" where
  "quoted k = [CHR 0x27] @ k @ [CHR 0x27]"

definition sample_errorMessage :: "string \<Rightarrow> failure list \<Rightarrow> string" where
  "sample_errorMessage subject fs =
    (case fs of
       [ReadOfMissing k] \<Rightarrow>
         ''Cannot read properties of '' @ subject @ '' (reading '' @ quoted k @ '')''
     | _ \<Rightarrow> subject @ '' failed'')"

definition sample_lib :: lib where
  "sample_lib =
    \<lparr>newDate = sample_newDate,
     castDateText = iso_date,
     castObjectId = sample_castObjectId,
     numberToString = (\<lambda>n. show_int \<lfloor>n\<rfloor>),
     dateToString = (\<lambda>d. case d of Some t \<Rightarrow> show_int t | None \<Rightarrow> ''Invalid Date''),
     toISOString = show_int,
     errorMessage = sample_errorMessage,
     routeMatches = (\<lambda>m p req. req_method req = m \<and> req_url req = p)\<rparr>"

definition sample_ambient :: "int \<Rightarrow> oid \<Rightarrow> ambient" where
  "sample_ambient t i =
    \<lparr>now = t, fresh_oid = i, fault = None, uptime = 12, rss = 52428800,
     heapTotal = 20971520, heapUsed = 10485760\<rparr>"

definition sample_process :: "string option \<Rightarrow> string option \<Rightarrow> process" where
  "sample_process mode uri =
    \<lparr>penv = (\<lambda>k. if k = ''NODE_ENV'' then mode else if k = ''MONGODB_URI'' then uri else None)\<rparr>"

definition empty_store :: store where
  "empty_store = \<lparr>readyState = 1, enquiries = [], appointments = []\<rparr>"

text \<open>
  Sample requests: a POST whose upload decodes to the object \<open>b\<close> (with \<^verbatim>\<open>req.body\<close>
  as the parsers set it), a POST without a body, a GET and an OPTIONS request.
\<close>

definition post :: "string \<Rightarrow> obj \<Rightarrow> request" where
  "post url b =
    \<lparr>req_method = ''POST'', req_url = url, req_origin = None,
     req_upload = Upload 100 (Inr (JObj b)), body = Some (JObj b)\<rparr>"

definition post_nothing :: "string \<Rightarrow> request" where
  "post_nothing url =
    \<lparr>req_method = ''POST'', req_url = url, req_origin = None, req_upload = NoUpload,
     body = None\<rparr>"

definition get :: "string \<Rightarrow> request" where
  "get url =
    \<lparr>req_method = ''GET'', req_url = url, req_origin = None, req_upload = NoUpload,
     body = None\<rparr>"

definition options :: "string \<Rightarrow> request" where
  "options url =
    \<lparr>req_method = ''OPTIONS'', req_url = url, req_origin = None, req_upload = NoUpload,
     body = None\<rparr>"

definition enquiry_A :: obj where
  "enquiry_A = [(''name'', JStr ''A''), (''email'', JStr ''a@x.com''), (''message'', JStr ''hi'')]"

definition enquiry_B :: obj where
  "enquiry_B = [(''name'', JStr ''B''), (''email'', JStr ''b@x.com''), (''message'', JStr ''hello'')]"

text \<open>
  The store after two enquiries: first A, whose body also gives a \<^verbatim>\<open>createdAt\<close> (the
  first millisecond of the year 2100), then B.
\<close>

definition store_AB :: store where
  "store_AB =
    fst (snd (post_enquiry_v1 sample_lib (sample_ambient 2000 2) (post ''/api/enquiry'' enquiry_B)
      (fst (snd (post_enquiry_v1 sample_lib (sample_ambient 1000 1)
        (post ''/api/enquiry'' (enquiry_A @ [(''createdAt'', JNum 4102444800000)]))
        empty_store)))))"

text \<open>\<open>property v k\<close> is \<^verbatim>\<open>v.k\<close> for a response body.\<close>

definition property :: "jsval \<Rightarrow> string \<Rightarrow> jsval option" where
  "property v k = (case v of JObj kvs \<Rightarrow> field kvs k | _ \<Rightarrow> None)"

text \<open>
  Requests served one after the other by the routes, each with its ambient and with
  \<^verbatim>\<open>req.body\<close> as the parsers have set it.
\<close>

fun serve_v1 :: "lib \<Rightarrow> process \<Rightarrow> (ambient \<times> request) list \<Rightarrow> store \<Rightarrow> store" where
  "serve_v1 L P [] s = s"
| "serve_v1 L P (ar # rest) s = serve_v1 L P rest (fst (snd (router_v1 L P (fst ar) (snd ar) s)))"

fun serve_v2 :: "lib \<Rightarrow> process \<Rightarrow> (ambient \<times> request) list \<Rightarrow> store \<Rightarrow> store" where
  "serve_v2 L P [] s = s"
| "serve_v2 L P (ar # rest) s = serve_v2 L P rest (fst (snd (router_v2 L P (fst ar) (snd ar) s)))"

definition appointment_A :: obj where
  "appointment_A =
    [(''name'', JStr ''A''), (''email'', JStr ''a@x.com''), (''phone'', JStr ''5550100''),
     (''preferredDate'', JStr ''2025-01-15''), (''preferredTime'', JStr ''10:30''),
     (''purpose'', JStr ''consultation'')]"

definition appointment_unparseable :: obj where
  "appointment_unparseable =
    [(''name'', JStr ''A''), (''email'', JStr ''a@x.com''), (''phone'', JStr ''5550100''),
     (''preferredDate'', JStr ''next tuesday''), (''preferredTime'', JStr ''10:30''),
     (''purpose'', JStr ''consultation'')]"

text \<open>A request that matches none of the six routes.\<close>

definition no_route :: "lib \<Rightarrow> request \<Rightarrow> bool" where
  "no_route L req \<longleftrightarrow>
     \<not> routeMatches L ''POST'' ''/api/enquiry'' req
   \<and> \<not> routeMatches L ''POST'' ''/api/appointment'' req
   \<and> \<not> routeMatches L ''GET'' ''/api/enquiries'' req
   \<and> \<not> routeMatches L ''GET'' ''/api/appointments'' req
   \<and> \<not> routeMatches L ''GET'' ''/health'' req
   \<and> \<not> routeMatches L ''GET'' ''/'' req"

text \<open>What one request does to the store: nothing, or one document appended.\<close>

definition appended :: "lib \<Rightarrow> ambient \<Rightarrow> request \<Rightarrow> store \<Rightarrow> store \<Rightarrow> bool" where
  "appended L a req s s' \<longleftrightarrow>
     s' = s
   \<or> (\<exists>b idv. body req = Some (JObj b)
        \<and> s' = s\<lparr>enquiries := enquiries s @ [new_document L a enquirySchema_v1 b idv]\<rparr>
        \<and> Some idv \<notin> set (ids (enquiries s)) \<and> id_value (doc_id L a b) = Some idv)
   \<or> (\<exists>b idv ms. body req = Some (JObj b)
        \<and> s' = s\<lparr>appointments := appointments s @ [new_document L a appointmentSchema_v1
             (AList.update ''preferredDate'' (JDate (Some ms)) b) idv]\<rparr>
        \<and> Some idv \<notin> set (ids (appointments s)) \<and> id_value (doc_id L a b) = Some idv)"

section \<open>Facts about documents and collections\<close>

lemmas sample_defs =
  sample_lib_def sample_ambient_def sample_process_def empty_store_def post_def get_def
  post_nothing_def options_def

lemma schemas_equal:
  "enquirySchema_v2 = enquirySchema_v1" "appointmentSchema_v2 = appointmentSchema_v1"
  by (simp_all add: enquirySchema_v1_def enquirySchema_v2_def appointmentSchema_v1_def
      appointmentSchema_v2_def)

lemma falsy_values:
  "\<not> truthy None" "\<not> truthy (Some JNull)" "\<not> truthy (Some (JStr []))"
  "\<not> truthy (Some (JNum 0))" "\<not> truthy (Some (JBool False))"
  by simp_all

lemma set_path_names:
  "(k, v) \<in> set (fst (set_path L a input p)) \<Longrightarrow> k = pname p"
  by (auto simp add: set_path_def split: option.splits cast.splits)

lemma build_doc_names:
  "(k, v) \<in> set (fst (build_doc L a input ps)) \<Longrightarrow> k \<in> pname ` set ps"
  by (induction ps) (auto dest: set_path_names)

lemma build_doc_absent:
  "k \<notin> pname ` set ps \<Longrightarrow> field (fst (build_doc L a input ps)) k = None"
  unfolding field_def by (meson build_doc_names map_of_SomeD not_Some_eq)

lemma set_path_absent:
  "k \<noteq> pname p \<Longrightarrow> field (fst (set_path L a input p)) k = None"
  unfolding field_def by (meson set_path_names map_of_SomeD not_Some_eq)

lemma field_append:
  "field (xs @ ys) k = (case field xs k of None \<Rightarrow> field ys k | Some v \<Rightarrow> Some v)"
  unfolding field_def by (simp add: map_add_def)

text \<open>A path declared once gets in the document what \<open>set_path\<close> gives it.\<close>

lemma build_doc_field:
  assumes "distinct (map pname ps)" "p \<in> set ps"
  shows "field (fst (build_doc L a input ps)) (pname p)
       = field (fst (set_path L a input p)) (pname p)"
  using assms
proof (induction ps)
  case Nil
  then show ?case by simp
next
  case (Cons q ps)
  show ?case
  proof (cases "q = p")
    case True
    with Cons.prems have "pname p \<notin> pname ` set ps" by auto
    then have "field (fst (build_doc L a input ps)) (pname p) = None"
      by (rule build_doc_absent)
    with True show ?thesis by (simp add: field_append split: option.splits)
  next
    case False
    with Cons.prems have "p \<in> set ps" and "pname q \<noteq> pname p" and "distinct (map pname ps)"
      by auto
    with Cons.IH set_path_absent [of "pname p" q L a input] show ?thesis
      by (simp add: field_append)
  qed
qed

lemma build_doc_failure:
  "p \<in> set ps \<Longrightarrow> f \<in> set (snd (set_path L a input p))
    \<Longrightarrow> f \<in> set (snd (build_doc L a input ps))"
  by (induction ps) auto


lemmas schema_defs =
  enquirySchema_v1_def appointmentSchema_v1_def enquirySchema_v2_def appointmentSchema_v2_def

lemmas store_defs =
  save_def insert_doc_def doc_failures_def doc_id_def new_document_def set_path_def ids_def
  field_def find_sorted_def sort_created_desc_def created_key_def

lemmas handler_defs =
  post_enquiry_v1_def post_enquiry_v2_def post_appointment_v1_def post_appointment_v2_def
  enquiry_block_v1_def enquiry_block_v2_def appointment_block_v1_def appointment_block_v2_def
  try_appointment_v1_def try_appointment_v2_def logged_def
  get_enquiries_v1_def get_enquiries_v2_def get_appointments_v1_def get_appointments_v2_def

lemma body_post: "body (post url b) = Some (JObj b)"
  by (simp add: post_def)

lemma mset_sort_created_desc: "mset (sort_created_desc coll) = mset coll"
  by (simp add: sort_created_desc_def)



lemma sort_created_desc_sorted:
  "sorted_wrt (\<lambda>x y. created_key y \<le> created_key x) (sort_created_desc coll)"
proof -
  have "sorted (map created_key (sort_key created_key coll))"
    by (rule sorted_sort_key)
  then have "sorted_wrt (\<lambda>x y. created_key x \<le> created_key y) (sort_key created_key coll)"
    by (simp add: sorted_map)
  then show ?thesis
    by (simp add: sort_created_desc_def sorted_wrt_rev)
qed

lemma sort_created_desc_later_first:
  assumes "i < length (sort_created_desc coll)" "j < length (sort_created_desc coll)"
    and "created_key (sort_created_desc coll ! i) < created_key (sort_created_desc coll ! j)"
  shows "j < i"
proof (rule ccontr)
  assume "\<not> j < i"
  with assms(3) have "i < j" by (cases "i = j") auto
  with sort_created_desc_sorted [of coll] assms(2)
  have "created_key (sort_created_desc coll ! j) \<le> created_key (sort_created_desc coll ! i)"
    by (simp add: sorted_wrt_iff_nth_less)
  with assms(3) show False by simp
qed

lemma find_sorted_ok: "fault a = None \<Longrightarrow> find_sorted a coll = Inr (sort_created_desc coll)"
  by (simp add: find_sorted_def)

lemma save_ok:
  assumes "doc_failures L a schema input = []" "id_value (doc_id L a input) = Some idv"
    and "fault a = None" "Some idv \<notin> set (ids coll)"
  shows "save L a model schema input coll = Inr (idv, coll @ [new_document L a schema input idv])"
  using assms by (simp add: save_def insert_doc_def)


lemma enquiry_names: "distinct (map pname enquirySchema_v1)"
  by (simp add: enquirySchema_v1_def)


lemma new_document_id: "field (new_document L a schema input idv) ''_id'' = Some idv"
  by (simp add: new_document_def field_def)

lemma enquiry_paths: "distinct (map pname enquirySchema_v1)" "''_id'' \<notin> pname ` set enquirySchema_v1"
  by (simp_all add: enquirySchema_v1_def)


lemmas date_defs = sample_newDate_def iso_date_def digit_of_def days_in_month_def
  days_from_civil_def leap_year_def

lemma save_Inr:
  assumes "save L a model schema input coll = Inr (idv, coll')"
  shows "coll' = coll @ [new_document L a schema input idv]"
    and "Some idv \<notin> set (ids coll)"
    and "id_value (doc_id L a input) = Some idv"
    and "doc_failures L a schema input = []"
    and "fault a = None"
  using assms by (auto simp add: save_def insert_doc_def split: if_splits option.splits)

lemma save_Inl_validation:
  "doc_failures L a schema input \<noteq> [] \<Longrightarrow>
   save L a model schema input coll = Inl \<lparr>err_name = ''ValidationError'',
       err_message = errorMessage L model (doc_failures L a schema input)\<rparr>"
  by (simp add: save_def)

lemma field_update:
  "field (AList.update k v ob) k' = (if k' = k then Some v else field ob k')"
  by (simp add: field_def update_conv')

lemma doc_id_update:
  "k \<noteq> ''_id'' \<Longrightarrow> doc_id L a (AList.update k v ob) = doc_id L a ob"
  by (simp add: doc_id_def field_update)

lemma appointment_paths:
  "distinct (map pname appointmentSchema_v1)" "''_id'' \<notin> pname ` set appointmentSchema_v1"
  "\<lparr>pname = ''preferredDate'', ptype = SDate, required = True, pdefault = NoDefault\<rparr>
     \<in> set appointmentSchema_v1"
  "\<lparr>pname = ''createdAt'', ptype = SDate, required = False, pdefault = DefaultNow\<rparr>
     \<in> set appointmentSchema_v1"
  by (simp_all add: appointmentSchema_v1_def)

lemma enquiry_createdAt:
  "\<lparr>pname = ''createdAt'', ptype = SDate, required = False, pdefault = DefaultNow\<rparr>
     \<in> set enquirySchema_v1"
  by (simp add: enquirySchema_v1_def)

text \<open>The Invalid Date does not pass the schema.\<close>

lemma invalid_date_fails:
  "doc_failures L a appointmentSchema_v1 (AList.update ''preferredDate'' (JDate None) b) \<noteq> []"
proof -
  let ?p = "\<lparr>pname = ''preferredDate'', ptype = SDate, required = True, pdefault = NoDefault\<rparr>"
  let ?input = "AList.update ''preferredDate'' (JDate None) b"
  have "CastFailed ''preferredDate'' \<in> set (snd (set_path L a ?input ?p))"
    by (simp add: set_path_def field_update)
  with appointment_paths(3)
  have "CastFailed ''preferredDate'' \<in> set (snd (build_doc L a ?input appointmentSchema_v1))"
    by (rule build_doc_failure)
  then show ?thesis
    by (auto simp add: doc_failures_def)
qed

lemma new_document_field:
  assumes "distinct (map pname schema)" "p \<in> set schema" "pname p \<noteq> ''_id''"
  shows "field (new_document L a schema input idv) (pname p)
       = field (fst (set_path L a input p)) (pname p)"
  using assms build_doc_field [of schema p L a input]
  by (simp add: new_document_def field_def)

lemma stored_preferredDate:
  "field (new_document L a appointmentSchema_v1
            (AList.update ''preferredDate'' (JDate (Some ms)) b) idv) ''preferredDate''
   = Some (JDate (Some ms))"
proof -
  let ?p = "\<lparr>pname = ''preferredDate'', ptype = SDate, required = True, pdefault = NoDefault\<rparr>"
  have "field (new_document L a appointmentSchema_v1
            (AList.update ''preferredDate'' (JDate (Some ms)) b) idv) (pname ?p)
      = field (fst (set_path L a (AList.update ''preferredDate'' (JDate (Some ms)) b) ?p)) (pname ?p)"
    using appointment_paths by (intro new_document_field) simp_all
  then show ?thesis
    by (simp add: set_path_def field_update) (simp add: field_def)
qed

lemma default_createdAt:
  assumes "distinct (map pname schema)" "''_id'' \<notin> pname ` set schema"
    and "\<lparr>pname = ''createdAt'', ptype = SDate, required = False, pdefault = DefaultNow\<rparr> \<in> set schema"
    and "field input ''createdAt'' = None"
  shows "field (new_document L a schema input idv) ''createdAt'' = Some (JDate (Some (now a)))"
proof -
  let ?p = "\<lparr>pname = ''createdAt'', ptype = SDate, required = False, pdefault = DefaultNow\<rparr>"
  from assms(2,3) have "pname ?p \<noteq> ''_id''" by (metis imageI)
  with assms(1,3) have "field (new_document L a schema input idv) (pname ?p)
      = field (fst (set_path L a input ?p)) (pname ?p)"
    by (intro new_document_field)
  with assms(4) show ?thesis
    by (simp add: set_path_def) (simp add: field_def)
qed

lemma try_appointment_Inr:
  assumes "try_appointment_v1 L a b coll = Inr (idv, coll')"
  shows "\<exists>ms. new_Date L (field b ''preferredDate'') = DateValue ms
      \<and> coll' = coll @ [new_document L a appointmentSchema_v1
            (AList.update ''preferredDate'' (JDate (Some ms)) b) idv]
      \<and> Some idv \<notin> set (ids coll) \<and> id_value (doc_id L a b) = Some idv"
proof (cases "new_Date L (field b ''preferredDate'')")
  case (DateValue ms)
  with assms have "save L a ''Appointment'' appointmentSchema_v1
      (AList.update ''preferredDate'' (JDate (Some ms)) b) coll = Inr (idv, coll')"
    by (simp add: try_appointment_v1_def)
  from save_Inr(1-3) [OF this] DateValue show ?thesis
    by (simp add: doc_id_update)
next
  case InvalidDate
  with assms invalid_date_fails [of L a b] show ?thesis
    by (simp add: try_appointment_v1_def save_Inl_validation)
next
  case (DateThrows e)
  with assms show ?thesis by (simp add: try_appointment_v1_def)
qed

text \<open>
  What \<open>read_body\<close> gives: the properties of a plain object, nothing for another value,
  an error for \<^verbatim>\<open>undefined\<close> and \<^verbatim>\<open>null\<close>.
\<close>

lemma read_body_cases:
  "(\<exists>e. read_body L bo k = Inl e \<and> err_name e = ''TypeError'' \<and> (bo = None \<or> bo = Some JNull))
   \<or> (\<exists>b. read_body L bo k = Inr b \<and> bo = Some (JObj b))
   \<or> (read_body L bo k = Inr [] \<and> bo \<noteq> None \<and> (\<forall>b. bo \<noteq> Some (JObj b)))"
  by (cases "(L, bo, k)" rule: read_body.cases) auto

lemma variant_blocks_agree:
  "try_appointment_v2 L a b coll = try_appointment_v1 L a b coll"
  "enquiry_block_v2 L a req s = enquiry_block_v1 L a req s"
  "appointment_block_v2 L a req s = appointment_block_v1 L a req s"
  unfolding try_appointment_v1_def try_appointment_v2_def enquiry_block_v1_def
    enquiry_block_v2_def appointment_block_v1_def appointment_block_v2_def schemas_equal
  by (rule refl)+

lemma variant_handlers_agree:
  "fst (post_enquiry_v2 L a req s) = fst (post_enquiry_v1 L a req s)"
  "fst (snd (post_enquiry_v2 L a req s)) = fst (snd (post_enquiry_v1 L a req s))"
  "fst (post_appointment_v2 L a req s) = fst (post_appointment_v1 L a req s)"
  "fst (snd (post_appointment_v2 L a req s)) = fst (snd (post_appointment_v1 L a req s))"
  by (simp_all add: post_enquiry_v1_def post_enquiry_v2_def post_appointment_v1_def
      post_appointment_v2_def variant_blocks_agree logged_def)

lemma post_appointment_v1_cases:
  "(\<exists>b ms idv. body req = Some (JObj b)
      \<and> new_Date L (field b ''preferredDate'') = DateValue ms
      \<and> status (fst (post_appointment_v1 L a req s)) = 201
      \<and> fst (snd (post_appointment_v1 L a req s)) = s\<lparr>appointments := appointments s
           @ [new_document L a appointmentSchema_v1
                (AList.update ''preferredDate'' (JDate (Some ms)) b) idv]\<rparr>
      \<and> Some idv \<notin> set (ids (appointments s)) \<and> id_value (doc_id L a b) = Some idv)
   \<or> (status (fst (post_appointment_v1 L a req s)) \<noteq> 201
      \<and> fst (snd (post_appointment_v1 L a req s)) = s)"
proof -
  from read_body_cases [of L "body req" "''name''"] consider
      (thrown) e where "read_body L (body req) ''name'' = Inl e"
    | (object) b where "read_body L (body req) ''name'' = Inr b" "body req = Some (JObj b)"
    | (other) "read_body L (body req) ''name'' = Inr []"
    by blast
  then show ?thesis
  proof cases
    case thrown
    then show ?thesis
      by (simp add: post_appointment_v1_def appointment_block_v1_def logged_def)
  next
    case other
    then show ?thesis
      by (simp add: post_appointment_v1_def appointment_block_v1_def logged_def field_def)
  next
    case object
    show ?thesis
    proof (cases "try_appointment_v1 L a b (appointments s)")
      case (Inl e)
      with object show ?thesis
        by (simp add: post_appointment_v1_def appointment_block_v1_def logged_def)
    next
      case (Inr r)
      obtain idv coll' where r: "r = (idv, coll')" by (cases r)
      from try_appointment_Inr [OF Inr [unfolded r]] Inr r object show ?thesis
        by (auto simp add: post_appointment_v1_def appointment_block_v1_def logged_def)
    qed
  qed
qed

lemma post_enquiry_v1_cases:
  "(\<exists>b idv. body req = Some (JObj b)
      \<and> status (fst (post_enquiry_v1 L a req s)) = 201
      \<and> fst (snd (post_enquiry_v1 L a req s)) = s\<lparr>enquiries := enquiries s
           @ [new_document L a enquirySchema_v1 b idv]\<rparr>
      \<and> Some idv \<notin> set (ids (enquiries s)) \<and> id_value (doc_id L a b) = Some idv)
   \<or> (status (fst (post_enquiry_v1 L a req s)) \<noteq> 201
      \<and> fst (snd (post_enquiry_v1 L a req s)) = s)"
proof -
  from read_body_cases [of L "body req" "''name''"] consider
      (thrown) e where "read_body L (body req) ''name'' = Inl e"
    | (object) b where "read_body L (body req) ''name'' = Inr b" "body req = Some (JObj b)"
    | (other) "read_body L (body req) ''name'' = Inr []"
    by blast
  then show ?thesis
  proof cases
    case thrown
    then show ?thesis
      by (simp add: post_enquiry_v1_def enquiry_block_v1_def logged_def)
  next
    case other
    then show ?thesis
      by (simp add: post_enquiry_v1_def enquiry_block_v1_def logged_def field_def)
  next
    case object
    show ?thesis
    proof (cases "save L a ''Enquiry'' enquirySchema_v1 b (enquiries s)")
      case (Inl e)
      with object show ?thesis
        by (simp add: post_enquiry_v1_def enquiry_block_v1_def logged_def)
    next
      case (Inr r)
      obtain idv coll' where r: "r = (idv, coll')" by (cases r)
      from save_Inr(1-3) [OF Inr [unfolded r]] Inr r object show ?thesis
        by (auto simp add: post_enquiry_v1_def enquiry_block_v1_def logged_def)
    qed
  qed
qed

lemma router_v1_appended: "appended L a req s (fst (snd (router_v1 L P a req s)))"
  using post_enquiry_v1_cases [of req L a s] post_appointment_v1_cases [of req L a s]
  unfolding appended_def router_v1_def logged_def
  by (auto simp add: get_enquiries_v1_def get_appointments_v1_def health_v1_def root_v1_def
      not_found_v1_def split: sum.splits)

lemma router_store_agree: "fst (snd (router_v2 L P a req s)) = fst (snd (router_v1 L P a req s))"
  by (simp add: router_v1_def router_v2_def logged_def variant_handlers_agree
      get_enquiries_v1_def get_enquiries_v2_def
      get_appointments_v1_def get_appointments_v2_def health_v1_def health_v2_def
      root_v1_def root_v2_def not_found_v1_def not_found_v2_def split: sum.splits)

lemma ids_append: "ids (coll @ [d]) = ids coll @ [field d ''_id'']"
  by (simp add: ids_def)

lemma appended_prefix:
  "appended L a req s s' \<Longrightarrow> prefix (enquiries s) (enquiries s') \<and> prefix (appointments s) (appointments s')"
  by (auto simp add: appended_def)

lemma appended_distinct:
  assumes "appended L a req s s'"
  shows "(distinct (ids (enquiries s)) \<longrightarrow> distinct (ids (enquiries s')))
       \<and> (distinct (ids (appointments s)) \<longrightarrow> distinct (ids (appointments s')))"
  using assms by (auto simp add: appended_def ids_append new_document_id)

lemma appended_defaults:
  assumes "appended L a req s s'"
    and "enquiries s' = enquiries s @ [doc] \<or> appointments s' = appointments s @ [doc]"
  shows "\<exists>b. body req = Some (JObj b)
       \<and> (field b ''_id'' = None \<longrightarrow> field doc ''_id'' = Some (JOid (fresh_oid a)))
       \<and> (field b ''createdAt'' = None \<longrightarrow>
            field doc ''createdAt'' = Some (JDate (Some (now a))))"
proof -
  from assms consider
      (enquiry) b idv where "body req = Some (JObj b)"
        "doc = new_document L a enquirySchema_v1 b idv"
        "id_value (doc_id L a b) = Some idv"
    | (appointment) b idv ms where "body req = Some (JObj b)"
        "doc = new_document L a appointmentSchema_v1
             (AList.update ''preferredDate'' (JDate (Some ms)) b) idv"
        "id_value (doc_id L a b) = Some idv"
    by (auto simp add: appended_def)
  then show ?thesis
  proof cases
    case enquiry
    then show ?thesis
      using default_createdAt [of enquirySchema_v1 b L a idv] enquiry_paths enquiry_createdAt
      by (auto simp add: new_document_id doc_id_def)
  next
    case appointment
    then show ?thesis
      using default_createdAt [of appointmentSchema_v1
          "AList.update ''preferredDate'' (JDate (Some ms)) b" L a idv] appointment_paths
      by (auto simp add: new_document_id doc_id_def field_update)
  qed
qed

lemma serve_v1_invariant:
  "distinct (ids (enquiries s)) \<and> distinct (ids (appointments s)) \<Longrightarrow>
   distinct (ids (enquiries (serve_v1 L P rs s))) \<and> distinct (ids (appointments (serve_v1 L P rs s)))
   \<and> prefix (enquiries s) (enquiries (serve_v1 L P rs s))
   \<and> prefix (appointments s) (appointments (serve_v1 L P rs s))"
proof (induction rs arbitrary: s)
  case Nil
  then show ?case by simp
next
  case (Cons ar rs)
  let ?s' = "fst (snd (router_v1 L P (fst ar) (snd ar) s))"
  have step: "appended L (fst ar) (snd ar) s ?s'"
    by (rule router_v1_appended)
  with Cons.prems have "distinct (ids (enquiries ?s')) \<and> distinct (ids (appointments ?s'))"
    using appended_distinct by blast
  from Cons.IH [OF this] appended_prefix [OF step] show ?case
    by (auto intro: prefix_order.trans)
qed

lemma serve_agree: "serve_v2 L P rs s = serve_v1 L P rs s"
  by (induction rs arbitrary: s) (simp_all add: router_store_agree)

text \<open>
  The whole chain adds nothing to what the routes do to the store: a request that
  \<^verbatim>\<open>cors\<close> or the error handler answers leaves it as it was.
\<close>

lemma app_store:
  "fst (snd (app_v1 L P a req s)) = s
   \<or> (\<exists>b. parse_body 10485760 (req_upload req) = Inr b
        \<and> fst (snd (app_v1 L P a req s)) = fst (snd (router_v1 L P a (req\<lparr>body := b\<rparr>) s)))"
  "fst (snd (app_v2 L P a req s)) = s
   \<or> (\<exists>b. parse_body 102400 (req_upload req) = Inr b
        \<and> fst (snd (app_v2 L P a req s)) = fst (snd (router_v2 L P a (req\<lparr>body := b\<rparr>) s)))"
  by (auto simp add: app_v1_def app_v2_def split: sum.splits)

section \<open>Rejected submissions\<close>

text \<open>
  A submission whose body the parsers have set and in which a required field is missing
  or empty is answered 400 and leaves the store as it was. The handlers test each
  required field with \<^verbatim>\<open>!\<close>, so the fields they reject are the falsy ones: a missing
  field, \<^verbatim>\<open>null\<close> and the empty string (lemma \<open>falsy_values\<close>), and also \<^verbatim>\<open>0\<close> and
  \<^verbatim>\<open>false\<close>. The response is the same for every library, every ambient (also one in
  which each store operation would fail) and every store: the handler answers before it
  constructs a document or calls \<^verbatim>\<open>save\<close>. Both variants agree.
\<close>

lemma parsed_submission_missing_fields:
  "(read_body L (body req) ''name'' = Inr b
      \<and> (\<exists>k \<in> set [''name'', ''email'', ''message'']. \<not> truthy (field b k)) \<longrightarrow>
      fst (post_enquiry_v1 L a req s) = \<lparr>status = 400, payload = JObj
        [(''error'', JStr ''Missing required fields: name, email, and message are required'')]\<rparr>
    \<and> fst (snd (post_enquiry_v1 L a req s)) = s
    \<and> fst (post_enquiry_v2 L a req s) = fst (post_enquiry_v1 L a req s)
    \<and> fst (snd (post_enquiry_v2 L a req s)) = s)
  \<and> (read_body L (body req) ''name'' = Inr b
      \<and> (\<exists>k \<in> set [''name'', ''email'', ''phone'', ''preferredDate'', ''preferredTime'', ''purpose''].
        \<not> truthy (field b k)) \<longrightarrow>
      fst (post_appointment_v1 L a req s) = \<lparr>status = 400, payload = JObj
        [(''error'', JStr ''Missing required fields'')]\<rparr>
    \<and> fst (snd (post_appointment_v1 L a req s)) = s
    \<and> fst (post_appointment_v2 L a req s) = fst (post_appointment_v1 L a req s)
    \<and> fst (snd (post_appointment_v2 L a req s)) = s)"
  by (auto simp add: handler_defs)

text \<open>
  Without a parsed body the first read, \<^verbatim>\<open>req.body.name\<close>, throws inside \<^verbatim>\<open>try\<close>, and
  the \<^verbatim>\<open>catch\<close> answers 500, in both handlers and both variants; the store is left as it
  was.
\<close>

lemma undefined_body_is_500:
  assumes "body req = None \<or> body req = Some JNull"
  shows "status (fst (post_enquiry_v1 L a req s)) = 500
    \<and> property (payload (fst (post_enquiry_v1 L a req s))) ''error''
        = Some (JStr ''Failed to submit enquiry'')
    \<and> fst (snd (post_enquiry_v1 L a req s)) = s
    \<and> status (fst (post_appointment_v1 L a req s)) = 500
    \<and> property (payload (fst (post_appointment_v1 L a req s))) ''error''
        = Some (JStr ''Failed to submit appointment request'')
    \<and> fst (snd (post_appointment_v1 L a req s)) = s
    \<and> fst (post_enquiry_v2 L a req s) = fst (post_enquiry_v1 L a req s)
    \<and> fst (post_appointment_v2 L a req s) = fst (post_appointment_v1 L a req s)"
  using assms by (auto simp add: handler_defs property_def field_def)

text \<open>
  C1 fails on the code for a submission without a body. The handlers mean to answer a
  submission with missing required fields by 400 (\<^verbatim>\<open>// Validate required fields\<close>), but
  their test reads \<^verbatim>\<open>req.body.name\<close> without a guard for a \<^verbatim>\<open>req.body\<close> that is
  \<^verbatim>\<open>undefined\<close>, which is what the parsers leave when a POST carries no body: the
  whole server answers POST /api/enquiry and POST /api/appointment without a body by 500
  (\<^verbatim>\<open>Failed to submit ...\<close>), not 400. The store is unchanged.
\<close>

theorem post_without_body_is_500:
  "fst (app_v1 sample_lib (sample_process None None) (sample_ambient 1000 1)
      (post_nothing ''/api/enquiry'') empty_store)
    = Json \<lparr>status = 500, payload = JObj
        [(''error'', JStr ''Failed to submit enquiry''),
         (''details'', JStr (''Cannot read properties of undefined (reading '' @ quoted ''name''
            @ '')''))]\<rparr>
   \<and> fst (snd (app_v1 sample_lib (sample_process None None) (sample_ambient 1000 1)
      (post_nothing ''/api/enquiry'') empty_store)) = empty_store
   \<and> fst (app_v1 sample_lib (sample_process None None) (sample_ambient 1000 1)
      (post_nothing ''/api/appointment'') empty_store)
    = Json \<lparr>status = 500, payload = JObj
        [(''error'', JStr ''Failed to submit appointment request''),
         (''details'', JStr (''Cannot read properties of undefined (reading '' @ quoted ''name''
            @ '')''))]\<rparr>
   \<and> fst (app_v2 sample_lib (sample_process None None) (sample_ambient 1000 1)
      (post_nothing ''/api/enquiry'') empty_store)
    = Json \<lparr>status = 500, payload = JObj
        [(''error'', JStr ''Failed to submit enquiry''),
         (''details'', JStr (''Cannot read properties of undefined (reading '' @ quoted ''name''
            @ '')''))]\<rparr>"
  by (simp add: app_v1_def app_v2_def cors_preflight_def parse_body_def router_v1_def
      router_v2_def handler_defs sample_defs sample_errorMessage_def)

section \<open>Accepted enquiries\<close>


text \<open>
  A body may also supply the \<^verbatim>\<open>_id\<close>. When that is \<^verbatim>\<open>null\<close>, the document is stored
  with the \<^verbatim>\<open>_id\<close> \<^verbatim>\<open>null\<close> and the response is 201 with the id \<^verbatim>\<open>null\<close>: the id of a
  response is an ObjectId only when the document's \<^verbatim>\<open>_id\<close> is one.
\<close>

lemma enquiry_with_null_id:
  "fst (post_enquiry_v1 sample_lib (sample_ambient 1000 1)
        (post ''/api/enquiry'' (enquiry_A @ [(''_id'', JNull)])) empty_store)
   = \<lparr>status = 201, payload = JObj
        [(''success'', JBool True),
         (''message'', JStr ''Enquiry submitted successfully''),
         (''id'', JNull)]\<rparr>"
  by (simp add: enquiry_A_def sample_defs store_defs schema_defs handler_defs
      sample_castObjectId_def)



section \<open>Listing\<close>

text \<open>
  C3 as stated does not hold: the list is ordered by the stored \<^verbatim>\<open>createdAt\<close>, not by
  the order of insertion, and the two differ when a body supplies its own
  \<^verbatim>\<open>createdAt\<close> (the schema's \<^verbatim>\<open>Date.now\<close> is a default, used only when the body has
  none). A is inserted before B, and the list places A before B.
\<close>

lemma store_AB_eq: "store_AB = \<lparr>readyState = 1, enquiries =
   [[(''_id'', JOid 1), (''name'', JStr ''A''), (''email'', JStr ''a@x.com''),
     (''message'', JStr ''hi''), (''type'', JStr ''general_enquiry''),
     (''createdAt'', JDate (Some 4102444800000))],
    [(''_id'', JOid 2), (''name'', JStr ''B''), (''email'', JStr ''b@x.com''),
     (''message'', JStr ''hello''), (''type'', JStr ''general_enquiry''),
     (''createdAt'', JDate (Some 2000))]], appointments = []\<rparr>"
  by (simp add: store_AB_def enquiry_A_def enquiry_B_def sample_defs store_defs schema_defs
      handler_defs sample_newDate_def)

theorem later_insert_listed_second_counterexample:
  "enquiries store_AB =
     [[(''_id'', JOid 1), (''name'', JStr ''A''), (''email'', JStr ''a@x.com''),
       (''message'', JStr ''hi''), (''type'', JStr ''general_enquiry''),
       (''createdAt'', JDate (Some 4102444800000))],
      [(''_id'', JOid 2), (''name'', JStr ''B''), (''email'', JStr ''b@x.com''),
       (''message'', JStr ''hello''), (''type'', JStr ''general_enquiry''),
       (''createdAt'', JDate (Some 2000))]]
   \<and> payload (fst (get_enquiries_v1 (sample_ambient 3000 3) store_AB)) = JObj
       [(''success'', JBool True),
        (''count'', JNum 2),
        (''data'', JArr
          [JObj [(''_id'', JOid 1), (''name'', JStr ''A''), (''email'', JStr ''a@x.com''),
             (''message'', JStr ''hi''), (''type'', JStr ''general_enquiry''),
             (''createdAt'', JDate (Some 4102444800000))],
           JObj [(''_id'', JOid 2), (''name'', JStr ''B''), (''email'', JStr ''b@x.com''),
             (''message'', JStr ''hello''), (''type'', JStr ''general_enquiry''),
             (''createdAt'', JDate (Some 2000))]])]"
  by (simp add: store_AB_eq sample_defs store_defs handler_defs)

lemma listed_sorted:
  assumes "fault a = None"
  shows "\<exists>docs. find_sorted a coll = Inr docs
      \<and> mset docs = mset coll
      \<and> (\<forall>i j. i < length docs \<and> j < length docs
            \<and> created_key (docs ! i) < created_key (docs ! j) \<longrightarrow> j < i)"
  using assms sort_created_desc_later_first [of _ coll]
  by (simp add: find_sorted_ok mset_sort_created_desc)

text \<open>
  C3 (amended). With a store that can be reached, each list endpoint answers 200 with all
  stored records of its type (the same records, each as often as it is stored) ordered by
  \<^verbatim>\<open>createdAt\<close> descending: of two listed records, the one with the later
  \<^verbatim>\<open>createdAt\<close> comes first. So B is placed before A whenever B's \<^verbatim>\<open>createdAt\<close> is
  later than A's. Both variants agree.
\<close>

theorem lists_are_sorted_by_createdAt:
  assumes "fault a = None"
  shows "(\<exists>docs. fst (get_enquiries_v1 a s) = \<lparr>status = 200, payload = JObj
            [(''success'', JBool True),
             (''count'', JNum (real (length docs))),
             (''data'', JArr (map JObj docs))]\<rparr>
          \<and> fst (get_enquiries_v2 a s) = fst (get_enquiries_v1 a s)
          \<and> mset docs = mset (enquiries s)
          \<and> (\<forall>i j. i < length docs \<and> j < length docs
                \<and> created_key (docs ! i) < created_key (docs ! j) \<longrightarrow> j < i))
    \<and> (\<exists>docs. fst (get_appointments_v1 a s) = \<lparr>status = 200, payload = JObj
            [(''success'', JBool True),
             (''count'', JNum (real (length docs))),
             (''data'', JArr (map JObj docs))]\<rparr>
          \<and> fst (get_appointments_v2 a s) = fst (get_appointments_v1 a s)
          \<and> mset docs = mset (appointments s)
          \<and> (\<forall>i j. i < length docs \<and> j < length docs
                \<and> created_key (docs ! i) < created_key (docs ! j) \<longrightarrow> j < i))"
proof -
  from listed_sorted [OF assms, of "enquiries s"] obtain es where
    es: "find_sorted a (enquiries s) = Inr es" "mset es = mset (enquiries s)"
      "\<forall>i j. i < length es \<and> j < length es \<and> created_key (es ! i) < created_key (es ! j) \<longrightarrow> j < i"
    by blast
  from listed_sorted [OF assms, of "appointments s"] obtain as where
    as: "find_sorted a (appointments s) = Inr as" "mset as = mset (appointments s)"
      "\<forall>i j. i < length as \<and> j < length as \<and> created_key (as ! i) < created_key (as ! j) \<longrightarrow> j < i"
    by blast
  have e1: "fst (get_enquiries_v1 a s) = \<lparr>status = 200, payload = JObj
            [(''success'', JBool True),
             (''count'', JNum (real (length es))),
             (''data'', JArr (map JObj es))]\<rparr>"
    and e2: "fst (get_enquiries_v2 a s) = fst (get_enquiries_v1 a s)"
    using es(1) by (simp_all add: get_enquiries_v1_def get_enquiries_v2_def)
  have a1: "fst (get_appointments_v1 a s) = \<lparr>status = 200, payload = JObj
            [(''success'', JBool True),
             (''count'', JNum (real (length as))),
             (''data'', JArr (map JObj as))]\<rparr>"
    and a2: "fst (get_appointments_v2 a s) = fst (get_appointments_v1 a s)"
    using as(1) by (simp_all add: get_appointments_v1_def get_appointments_v2_def)
  from e1 e2 es(2,3) a1 a2 as(2,3) show ?thesis
    by blast
qed

theorem lists_are_sorted_by_createdAt_witness:
  "fault (sample_ambient 3000 3) = None
   \<and> (\<exists>docs. fst (get_enquiries_v1 (sample_ambient 3000 3) store_AB) = \<lparr>status = 200, payload = JObj
            [(''success'', JBool True),
             (''count'', JNum (real (length docs))),
             (''data'', JArr (map JObj docs))]\<rparr>
          \<and> mset docs = mset (enquiries store_AB))"
proof -
  have h: "fault (sample_ambient 3000 3) = None"
    by (simp add: sample_ambient_def)
  from lists_are_sorted_by_createdAt [OF h, of store_AB] h show ?thesis
    by blast
qed

text \<open>
  C10. In every 200 response of a list endpoint the \<^verbatim>\<open>count\<close> field is the number of
  elements of the \<^verbatim>\<open>data\<close> array.
\<close>

theorem list_count_is_length:
  "(status (fst (get_enquiries_v1 a s)) = 200 \<longrightarrow>
      (\<exists>docs. property (payload (fst (get_enquiries_v1 a s))) ''data'' = Some (JArr docs)
         \<and> property (payload (fst (get_enquiries_v1 a s))) ''count'' = Some (JNum (real (length docs)))))
 \<and> (status (fst (get_appointments_v1 a s)) = 200 \<longrightarrow>
      (\<exists>docs. property (payload (fst (get_appointments_v1 a s))) ''data'' = Some (JArr docs)
         \<and> property (payload (fst (get_appointments_v1 a s))) ''count'' = Some (JNum (real (length docs)))))
 \<and> (status (fst (get_enquiries_v2 a s)) = 200 \<longrightarrow>
      (\<exists>docs. property (payload (fst (get_enquiries_v2 a s))) ''data'' = Some (JArr docs)
         \<and> property (payload (fst (get_enquiries_v2 a s))) ''count'' = Some (JNum (real (length docs)))))
 \<and> (status (fst (get_appointments_v2 a s)) = 200 \<longrightarrow>
      (\<exists>docs. property (payload (fst (get_appointments_v2 a s))) ''data'' = Some (JArr docs)
         \<and> property (payload (fst (get_appointments_v2 a s))) ''count'' = Some (JNum (real (length docs)))))"
  by (simp add: get_enquiries_v1_def get_appointments_v1_def get_enquiries_v2_def
      get_appointments_v2_def property_def field_def split: sum.splits)

theorem list_count_is_length_witness:
  "status (fst (get_enquiries_v1 (sample_ambient 3000 3) store_AB)) = 200
   \<and> (\<exists>docs. property (payload (fst (get_enquiries_v1 (sample_ambient 3000 3) store_AB))) ''data''
          = Some (JArr docs)
        \<and> property (payload (fst (get_enquiries_v1 (sample_ambient 3000 3) store_AB))) ''count''
          = Some (JNum (real (length docs))))"
proof -
  have h: "status (fst (get_enquiries_v1 (sample_ambient 3000 3) store_AB)) = 200"
    by (simp add: get_enquiries_v1_def find_sorted_def sample_ambient_def)
  from list_count_is_length [of "sample_ambient 3000 3" store_AB] h show ?thesis
    by blast
qed

section \<open>Health, startup and unmatched routes\<close>



text \<open>
  The whole server gives the health response to a GET /health that comes without a body.
\<close>

lemma health_through_the_server:
  "fst (app_v1 sample_lib (sample_process None None) (sample_ambient 1000 1) (get ''/health'')
      (empty_store\<lparr>readyState := 0\<rparr>))
   = Json (fst (health_v1 sample_lib (sample_process None None) (sample_ambient 1000 1)
      (empty_store\<lparr>readyState := 0\<rparr>)))"
  by (simp add: app_v1_def cors_preflight_def parse_body_def router_v1_def logged_def
      sample_lib_def get_def)

text \<open>
  The first variant does at startup what C7 says: without a connection string it exits
  with code 1 in production mode and connects to the local default otherwise.
\<close>

lemma startup_v1_cases:
  "\<not> env_set (penv P ''MONGODB_URI'') \<Longrightarrow> isProduction P \<Longrightarrow> startup_v1 P = ProcessExit 1"
  "\<not> env_set (penv P ''MONGODB_URI'') \<Longrightarrow> \<not> isProduction P
     \<Longrightarrow> startup_v1 P = Connecting ''mongodb://127.0.0.1:27017/skm-chambers''"
  "penv P ''MONGODB_URI'' = Some uri \<Longrightarrow> uri \<noteq> [] \<Longrightarrow> startup_v1 P = Connecting uri"
  by (simp_all add: startup_v1_def getMongoURI_def env_set_def env_or_def)

text \<open>
  C7 fails in the second variant, which never looks at the mode: in production mode and
  without \<^verbatim>\<open>MONGODB_URI\<close> it connects to \<^verbatim>\<open>mongodb://localhost:27017/skm-chambers\<close>
  and goes on, where the first variant exits with code 1.
\<close>

theorem startup_v2_ignores_production:
  "\<not> env_set (penv (sample_process (Some ''production'') None) ''MONGODB_URI'')
   \<and> isProduction (sample_process (Some ''production'') None)
   \<and> startup_v2 (sample_process (Some ''production'') None)
       = Connecting ''mongodb://localhost:27017/skm-chambers''
   \<and> startup_v1 (sample_process (Some ''production'') None) = ProcessExit 1"
  by (simp add: startup_v2_def startup_v1_def getMongoURI_def isProduction_def env_or_def
      env_set_def sample_process_def)

text \<open>
  Among the requests that reach the routes, one that matches none of the six is answered
  404 with the body \<^verbatim>\<open>{error, availableEndpoints}\<close>, whatever the process, the ambient
  and the store, and the store is left as it was.
\<close>

lemma unmatched_in_router:
  assumes "no_route L req"
  shows "fst (router_v1 L P a req s) = \<lparr>status = 404, payload = JObj
       [(''error'', JStr ''Endpoint not found''),
        (''availableEndpoints'', JObj
          [(''root'', JStr ''GET /''),
           (''health'', JStr ''GET /health''),
           (''submitEnquiry'', JStr ''POST /api/enquiry''),
           (''submitAppointment'', JStr ''POST /api/appointment'')])]\<rparr>"
    and "fst (snd (router_v1 L P a req s)) = s"
    and "fst (router_v2 L P a req s) = fst (router_v1 L P a req s)"
    and "fst (snd (router_v2 L P a req s)) = s"
  using assms
  by (simp_all add: no_route_def router_v1_def router_v2_def logged_def not_found_v1_def
      not_found_v2_def)

text \<open>
  C8 as stated does not hold: not every request that matches no route reaches the 404
  handler. \<^verbatim>\<open>app.use(cors(...))\<close> comes first and ends every OPTIONS request with 204 and
  no body; OPTIONS /nope matches none of the six routes and is answered 204, in both
  variants.
\<close>

theorem options_request_counterexample:
  "no_route sample_lib (options ''/nope'')
   \<and> fst (app_v1 sample_lib (sample_process None None) (sample_ambient 1000 1)
        (options ''/nope'') empty_store) = Ended 204
   \<and> fst (app_v2 sample_lib (sample_process None None) (sample_ambient 1000 1)
        (options ''/nope'') empty_store) = Ended 204"
  by (simp add: no_route_def app_v1_def app_v2_def cors_preflight_def sample_lib_def
      options_def)

text \<open>
  C8 (amended). For every request that matches no entry of the routing table:
  \<^item> when its method is not OPTIONS and the body parsers accept what it uploads (or it
    uploads nothing), the response is 404 with the body \<^verbatim>\<open>{error, availableEndpoints}\<close>,
    where \<^verbatim>\<open>availableEndpoints\<close> is the same directory every time;
  \<^item> when its method is OPTIONS, \<^verbatim>\<open>cors\<close> answers 204 without a body (this holds for
    every OPTIONS request);
  \<^item> when its method is not OPTIONS and a body parser rejects what it uploads (malformed,
    or over the limit: 10 MB in the first variant, 100 kB in the second), the
    error-handling middleware answers 500 with the body \<^verbatim>\<open>{error: "Internal server
    error", message}\<close> (this too holds whatever the route).

  In each case the store is left as it was. Whether a request matches a route is
  Express's decision (\<open>routeMatches\<close>); the statement holds however it decides.
\<close>

theorem unmatched_route_is_404:
  "(\<not> cors_preflight req \<and> parse_body 10485760 (req_upload req) = Inr b
      \<and> no_route L (req\<lparr>body := b\<rparr>) \<longrightarrow>
      fst (app_v1 L P a req s) = Json \<lparr>status = 404, payload = JObj
       [(''error'', JStr ''Endpoint not found''),
        (''availableEndpoints'', JObj
          [(''root'', JStr ''GET /''),
           (''health'', JStr ''GET /health''),
           (''submitEnquiry'', JStr ''POST /api/enquiry''),
           (''submitAppointment'', JStr ''POST /api/appointment'')])]\<rparr>
      \<and> fst (snd (app_v1 L P a req s)) = s)
   \<and> (\<not> cors_preflight req \<and> parse_body 102400 (req_upload req) = Inr b
      \<and> no_route L (req\<lparr>body := b\<rparr>) \<longrightarrow>
      fst (app_v2 L P a req s) = Json \<lparr>status = 404, payload = JObj
       [(''error'', JStr ''Endpoint not found''),
        (''availableEndpoints'', JObj
          [(''root'', JStr ''GET /''),
           (''health'', JStr ''GET /health''),
           (''submitEnquiry'', JStr ''POST /api/enquiry''),
           (''submitAppointment'', JStr ''POST /api/appointment'')])]\<rparr>
      \<and> fst (snd (app_v2 L P a req s)) = s)
   \<and> (cors_preflight req \<longrightarrow>
      fst (app_v1 L P a req s) = Ended 204 \<and> fst (snd (app_v1 L P a req s)) = s
      \<and> fst (app_v2 L P a req s) = Ended 204 \<and> fst (snd (app_v2 L P a req s)) = s)
   \<and> (\<not> cors_preflight req \<and> parse_body 10485760 (req_upload req) = Inl e \<longrightarrow>
      fst (app_v1 L P a req s) = Json (error_handler P e)
      \<and> fst (snd (app_v1 L P a req s)) = s)
   \<and> (\<not> cors_preflight req \<and> parse_body 102400 (req_upload req) = Inl e \<longrightarrow>
      fst (app_v2 L P a req s) = Json (error_handler P e)
      \<and> fst (snd (app_v2 L P a req s)) = s)
   \<and> status (error_handler P e) = 500
   \<and> property (payload (error_handler P e)) ''error'' = Some (JStr ''Internal server error'')"
proof -
  have v1: "fst (app_v1 L P a req s) = Json \<lparr>status = 404, payload = JObj
       [(''error'', JStr ''Endpoint not found''),
        (''availableEndpoints'', JObj
          [(''root'', JStr ''GET /''),
           (''health'', JStr ''GET /health''),
           (''submitEnquiry'', JStr ''POST /api/enquiry''),
           (''submitAppointment'', JStr ''POST /api/appointment'')])]\<rparr>
      \<and> fst (snd (app_v1 L P a req s)) = s"
    if "\<not> cors_preflight req \<and> parse_body 10485760 (req_upload req) = Inr b
      \<and> no_route L (req\<lparr>body := b\<rparr>)"
    using that unmatched_in_router(1,2) [of L "req\<lparr>body := b\<rparr>" P a s]
    by (simp add: app_v1_def)
  have v2: "fst (app_v2 L P a req s) = Json \<lparr>status = 404, payload = JObj
       [(''error'', JStr ''Endpoint not found''),
        (''availableEndpoints'', JObj
          [(''root'', JStr ''GET /''),
           (''health'', JStr ''GET /health''),
           (''submitEnquiry'', JStr ''POST /api/enquiry''),
           (''submitAppointment'', JStr ''POST /api/appointment'')])]\<rparr>
      \<and> fst (snd (app_v2 L P a req s)) = s"
    if "\<not> cors_preflight req \<and> parse_body 102400 (req_upload req) = Inr b
      \<and> no_route L (req\<lparr>body := b\<rparr>)"
    using that unmatched_in_router [of L "req\<lparr>body := b\<rparr>" P a s]
    by (simp add: app_v2_def)
  have pre: "cors_preflight req \<longrightarrow>
      fst (app_v1 L P a req s) = Ended 204 \<and> fst (snd (app_v1 L P a req s)) = s
      \<and> fst (app_v2 L P a req s) = Ended 204 \<and> fst (snd (app_v2 L P a req s)) = s"
    by (simp add: app_v1_def app_v2_def)
  have e1: "\<not> cors_preflight req \<and> parse_body 10485760 (req_upload req) = Inl e \<longrightarrow>
      fst (app_v1 L P a req s) = Json (error_handler P e)
      \<and> fst (snd (app_v1 L P a req s)) = s"
    by (simp add: app_v1_def)
  have e2: "\<not> cors_preflight req \<and> parse_body 102400 (req_upload req) = Inl e \<longrightarrow>
      fst (app_v2 L P a req s) = Json (error_handler P e)
      \<and> fst (snd (app_v2 L P a req s)) = s"
    by (simp add: app_v2_def)
  have h: "status (error_handler P e) = 500"
      "property (payload (error_handler P e)) ''error'' = Some (JStr ''Internal server error'')"
    by (simp_all add: error_handler_def property_def field_def)
  from v1 v2 pre e1 e2 h show ?thesis
    by blast
qed

theorem unmatched_route_is_404_witness:
  "\<not> cors_preflight (get ''/nope'')
   \<and> parse_body 10485760 (req_upload (get ''/nope'')) = Inr None
   \<and> no_route sample_lib ((get ''/nope'')\<lparr>body := None\<rparr>)
   \<and> fst (app_v1 sample_lib (sample_process None None) (sample_ambient 1000 1)
        (get ''/nope'') empty_store)
      = Json \<lparr>status = 404, payload = JObj
       [(''error'', JStr ''Endpoint not found''),
        (''availableEndpoints'', JObj
          [(''root'', JStr ''GET /''),
           (''health'', JStr ''GET /health''),
           (''submitEnquiry'', JStr ''POST /api/enquiry''),
           (''submitAppointment'', JStr ''POST /api/appointment'')])]\<rparr>
   \<and> cors_preflight (options ''/api/enquiry'')
   \<and> fst (app_v1 sample_lib (sample_process None None) (sample_ambient 1000 1)
        (options ''/api/enquiry'') empty_store) = Ended 204"
proof -
  have h: "\<not> cors_preflight (get ''/nope'')
      \<and> parse_body 10485760 (req_upload (get ''/nope'')) = Inr None
      \<and> no_route sample_lib ((get ''/nope'')\<lparr>body := None\<rparr>)"
    by (simp add: cors_preflight_def parse_body_def no_route_def sample_lib_def get_def)
  have o: "cors_preflight (options ''/api/enquiry'')"
    by (simp add: cors_preflight_def options_def)
  note t = unmatched_route_is_404 [of "get ''/nope''" None sample_lib
      "sample_process None None" "sample_ambient 1000 1" empty_store]
  note r1 = t [THEN conjunct1, rule_format, OF h, THEN conjunct1]
  note t' = unmatched_route_is_404 [of "options ''/api/enquiry''" None sample_lib
      "sample_process None None" "sample_ambient 1000 1" empty_store]
  note r2 = t' [THEN conjunct2, THEN conjunct2, THEN conjunct1, rule_format, OF o,
      THEN conjunct1]
  from h o r1 r2 show ?thesis
    by (intro conjI) simp_all
qed

section \<open>The two variants\<close>

text \<open>
  C9. On the four API routes the two variants give the same response (status and body)
  and the same store, for every request, ambient and store: handler by handler, and for
  every request the router takes to one of these routes. (The variants differ in what
  they log.)
\<close>

theorem variants_agree:
  "fst (post_enquiry_v2 L a req s) = fst (post_enquiry_v1 L a req s)
   \<and> fst (snd (post_enquiry_v2 L a req s)) = fst (snd (post_enquiry_v1 L a req s))
   \<and> fst (post_appointment_v2 L a req s) = fst (post_appointment_v1 L a req s)
   \<and> fst (snd (post_appointment_v2 L a req s)) = fst (snd (post_appointment_v1 L a req s))
   \<and> fst (get_enquiries_v2 a s) = fst (get_enquiries_v1 a s)
   \<and> fst (snd (get_enquiries_v2 a s)) = fst (snd (get_enquiries_v1 a s))
   \<and> fst (get_appointments_v2 a s) = fst (get_appointments_v1 a s)
   \<and> fst (snd (get_appointments_v2 a s)) = fst (snd (get_appointments_v1 a s))
   \<and> ((routeMatches L ''POST'' ''/api/enquiry'' req \<or> routeMatches L ''POST'' ''/api/appointment'' req
        \<or> routeMatches L ''GET'' ''/api/enquiries'' req \<or> routeMatches L ''GET'' ''/api/appointments'' req)
       \<longrightarrow> fst (router_v2 L P a req s) = fst (router_v1 L P a req s)
         \<and> fst (snd (router_v2 L P a req s)) = fst (snd (router_v1 L P a req s)))"
proof -
  note e = variant_handlers_agree(1,2) [of L a req s]
  note p = variant_handlers_agree(3,4) [of L a req s]
  have g: "fst (get_enquiries_v2 a s) = fst (get_enquiries_v1 a s)"
      "fst (snd (get_enquiries_v2 a s)) = fst (snd (get_enquiries_v1 a s))"
      "fst (get_appointments_v2 a s) = fst (get_appointments_v1 a s)"
      "fst (snd (get_appointments_v2 a s)) = fst (snd (get_appointments_v1 a s))"
    by (simp_all add: get_enquiries_v1_def get_enquiries_v2_def get_appointments_v1_def
        get_appointments_v2_def split: sum.splits)
  have app: "(routeMatches L ''POST'' ''/api/enquiry'' req \<or> routeMatches L ''POST'' ''/api/appointment'' req
        \<or> routeMatches L ''GET'' ''/api/enquiries'' req \<or> routeMatches L ''GET'' ''/api/appointments'' req)
       \<longrightarrow> fst (router_v2 L P a req s) = fst (router_v1 L P a req s)
         \<and> fst (snd (router_v2 L P a req s)) = fst (snd (router_v1 L P a req s))"
    using e p g by (auto simp add: router_v1_def router_v2_def logged_def)
  from e p g app show ?thesis by (intro conjI)
qed

theorem variants_agree_witness:
  "routeMatches sample_lib ''POST'' ''/api/enquiry'' (post ''/api/enquiry'' enquiry_A)
   \<and> fst (router_v2 sample_lib (sample_process None None) (sample_ambient 1000 1)
        (post ''/api/enquiry'' enquiry_A) empty_store)
     = fst (router_v1 sample_lib (sample_process None None) (sample_ambient 1000 1)
        (post ''/api/enquiry'' enquiry_A) empty_store)
   \<and> fst (snd (router_v2 sample_lib (sample_process None None) (sample_ambient 1000 1)
        (post ''/api/enquiry'' enquiry_A) empty_store))
     = fst (snd (router_v1 sample_lib (sample_process None None) (sample_ambient 1000 1)
        (post ''/api/enquiry'' enquiry_A) empty_store))"
proof -
  have h: "routeMatches sample_lib ''POST'' ''/api/enquiry'' (post ''/api/enquiry'' enquiry_A)"
    by (simp add: sample_lib_def post_def)
  from variants_agree [of sample_lib "sample_ambient 1000 1" "post ''/api/enquiry'' enquiry_A"
      empty_store "sample_process None None"] h
  show ?thesis
    by blast
qed

lemma variants_log_differently:
  "snd (snd (post_enquiry_v2 L a req s)) \<noteq> snd (snd (post_enquiry_v1 L a req s))"
  by (simp add: post_enquiry_v1_def post_enquiry_v2_def logged_def)

text \<open>
  Before the handlers, the variants differ in the limit of their body parsers: a body of
  200 kB reaches the handler in the first variant and is refused by the parser in the
  second, which the error handler answers with 500.
\<close>

lemma variants_limit_differently:
  "parse_body 10485760 (Upload 200000 (Inr v)) = Inr (Some v)
   \<and> status (error_handler P \<lparr>err_name = ''PayloadTooLargeError'',
        err_message = ''request entity too large''\<rparr>) = 500
   \<and> fst (app_v2 L P a (req\<lparr>req_method := ''POST'', req_upload := Upload 200000 (Inr v)\<rparr>) s)
      = Json (error_handler P \<lparr>err_name = ''PayloadTooLargeError'',
          err_message = ''request entity too large''\<rparr>)"
  by (simp add: parse_body_def app_v2_def cors_preflight_def error_handler_def)

section \<open>Appointments and their date\<close>

text \<open>
  C4. The appointment handler replaces the body's \<^verbatim>\<open>preferredDate\<close> by
  \<^verbatim>\<open>new Date(req.body.preferredDate)\<close> before it constructs the document.
  \<^item> When the text does not parse (the constructor gives the Invalid Date), the create
    fails: the response is 400 and the store is as it was; and when the six required
    fields pass the handler's check, it is the schema that rejects the Invalid Date, and
    the body is \<^verbatim>\<open>{error: "Validation error", details}\<close>.
  \<^item> When the text parses to a date and the response is 201, the store has got one more
    appointment, and its \<^verbatim>\<open>preferredDate\<close> is that date, a \<^verbatim>\<open>Date\<close> value and not the
    text.
  \<^item> The response is 201 for every submission with a parseable \<^verbatim>\<open>preferredDate\<close> whose
    required fields pass the check, that the schema accepts and whose \<^verbatim>\<open>_id\<close> is new,
    with a store that can be reached.

  The submission is the object \<open>b\<close> that the parsers have put in \<^verbatim>\<open>req.body\<close>. Both
  variants agree.
\<close>

theorem appointment_preferredDate_is_a_date:
  "(body req = Some (JObj b) \<and> field b ''preferredDate'' = Some (JStr t)
        \<and> newDate L (JStr t) = InvalidDate \<longrightarrow>
      status (fst (post_appointment_v1 L a req s)) = 400
      \<and> fst (snd (post_appointment_v1 L a req s)) = s
      \<and> ((\<forall>k \<in> set [''name'', ''email'', ''phone'', ''preferredDate'', ''preferredTime'', ''purpose''].
             truthy (field b k)) \<longrightarrow>
          (\<exists>details. payload (fst (post_appointment_v1 L a req s)) = JObj
             [(''error'', JStr ''Validation error''), (''details'', JStr details)])))
   \<and> (body req = Some (JObj b) \<and> field b ''preferredDate'' = Some (JStr t)
        \<and> newDate L (JStr t) = DateValue ms
        \<and> status (fst (post_appointment_v1 L a req s)) = 201 \<longrightarrow>
      (\<exists>doc. appointments (fst (snd (post_appointment_v1 L a req s))) = appointments s @ [doc]
         \<and> field doc ''preferredDate'' = Some (JDate (Some ms))))
   \<and> (body req = Some (JObj b) \<and> field b ''preferredDate'' = Some (JStr t)
        \<and> newDate L (JStr t) = DateValue ms
        \<and> (\<forall>k \<in> set [''name'', ''email'', ''phone'', ''preferredDate'', ''preferredTime'', ''purpose''].
             truthy (field b k))
        \<and> doc_failures L a appointmentSchema_v1
             (AList.update ''preferredDate'' (JDate (Some ms)) b) = []
        \<and> doc_id L a b = CastValue i
        \<and> Some (JOid i) \<notin> set (ids (appointments s))
        \<and> fault a = None \<longrightarrow>
      status (fst (post_appointment_v1 L a req s)) = 201)
   \<and> fst (post_appointment_v2 L a req s) = fst (post_appointment_v1 L a req s)
   \<and> fst (snd (post_appointment_v2 L a req s)) = fst (snd (post_appointment_v1 L a req s))"
proof -
  have invalid: "status (fst (post_appointment_v1 L a req s)) = 400
      \<and> fst (snd (post_appointment_v1 L a req s)) = s
      \<and> ((\<forall>k \<in> set [''name'', ''email'', ''phone'', ''preferredDate'', ''preferredTime'', ''purpose''].
             truthy (field b k)) \<longrightarrow>
          (\<exists>details. payload (fst (post_appointment_v1 L a req s)) = JObj
             [(''error'', JStr ''Validation error''), (''details'', JStr details)]))"
    if "body req = Some (JObj b) \<and> field b ''preferredDate'' = Some (JStr t)
        \<and> newDate L (JStr t) = InvalidDate"
  proof -
    from that have "try_appointment_v1 L a b (appointments s)
        = Inl \<lparr>err_name = ''ValidationError'', err_message = errorMessage L ''Appointment''
            (doc_failures L a appointmentSchema_v1
              (AList.update ''preferredDate'' (JDate None) b))\<rparr>"
      by (simp add: try_appointment_v1_def save_Inl_validation invalid_date_fails)
    with that show ?thesis
      by (simp add: post_appointment_v1_def appointment_block_v1_def logged_def)
  qed
  have stored: "\<exists>doc. appointments (fst (snd (post_appointment_v1 L a req s))) = appointments s @ [doc]
         \<and> field doc ''preferredDate'' = Some (JDate (Some ms))"
    if "body req = Some (JObj b) \<and> field b ''preferredDate'' = Some (JStr t)
        \<and> newDate L (JStr t) = DateValue ms
        \<and> status (fst (post_appointment_v1 L a req s)) = 201"
    using post_appointment_v1_cases [of req L a s] that stored_preferredDate [of L a ms b]
    by auto
  have created: "status (fst (post_appointment_v1 L a req s)) = 201"
    if h: "body req = Some (JObj b) \<and> field b ''preferredDate'' = Some (JStr t)
        \<and> newDate L (JStr t) = DateValue ms
        \<and> (\<forall>k \<in> set [''name'', ''email'', ''phone'', ''preferredDate'', ''preferredTime'', ''purpose''].
             truthy (field b k))
        \<and> doc_failures L a appointmentSchema_v1
             (AList.update ''preferredDate'' (JDate (Some ms)) b) = []
        \<and> doc_id L a b = CastValue i
        \<and> Some (JOid i) \<notin> set (ids (appointments s))
        \<and> fault a = None"
  proof -
    from h have "save L a ''Appointment'' appointmentSchema_v1
          (AList.update ''preferredDate'' (JDate (Some ms)) b) (appointments s)
        = Inr (JOid i, appointments s @ [new_document L a appointmentSchema_v1
            (AList.update ''preferredDate'' (JDate (Some ms)) b) (JOid i)])"
      by (intro save_ok) (simp_all add: doc_id_update)
    with h have "try_appointment_v1 L a b (appointments s)
        = Inr (JOid i, appointments s @ [new_document L a appointmentSchema_v1
            (AList.update ''preferredDate'' (JDate (Some ms)) b) (JOid i)])"
      by (simp add: try_appointment_v1_def)
    with h show ?thesis
      by (auto simp add: post_appointment_v1_def appointment_block_v1_def logged_def)
  qed
  note v2 = variant_handlers_agree(3,4) [of L a req s]
  from invalid stored created v2 show ?thesis
    by blast
qed

theorem appointment_preferredDate_is_a_date_witness:
  "body (post ''/api/appointment'' appointment_unparseable) = Some (JObj appointment_unparseable)
   \<and> field appointment_unparseable ''preferredDate'' = Some (JStr ''next tuesday'')
   \<and> newDate sample_lib (JStr ''next tuesday'') = InvalidDate
   \<and> status (fst (post_appointment_v1 sample_lib (sample_ambient 1000 1)
        (post ''/api/appointment'' appointment_unparseable) empty_store)) = 400
   \<and> body (post ''/api/appointment'' appointment_A) = Some (JObj appointment_A)
   \<and> field appointment_A ''preferredDate'' = Some (JStr ''2025-01-15'')
   \<and> newDate sample_lib (JStr ''2025-01-15'') = DateValue 1736899200000
   \<and> status (fst (post_appointment_v1 sample_lib (sample_ambient 1000 1)
        (post ''/api/appointment'' appointment_A) empty_store)) = 201
   \<and> (\<exists>doc. appointments (fst (snd (post_appointment_v1 sample_lib (sample_ambient 1000 1)
        (post ''/api/appointment'' appointment_A) empty_store))) = appointments empty_store @ [doc]
         \<and> field doc ''preferredDate'' = Some (JDate (Some 1736899200000)))"
proof -
  let ?a = "sample_ambient 1000 1"
  note b1 = body_post [of "''/api/appointment''" appointment_unparseable]
  note b2 = body_post [of "''/api/appointment''" appointment_A]
  have u: "field appointment_unparseable ''preferredDate'' = Some (JStr ''next tuesday'')"
      "newDate sample_lib (JStr ''next tuesday'') = InvalidDate"
    by (simp_all add: appointment_unparseable_def field_def sample_lib_def date_defs)
  have v: "field appointment_A ''preferredDate'' = Some (JStr ''2025-01-15'')"
      "newDate sample_lib (JStr ''2025-01-15'') = DateValue 1736899200000"
    by (simp_all add: appointment_A_def field_def sample_lib_def date_defs)
  have w: "\<forall>k \<in> set [''name'', ''email'', ''phone'', ''preferredDate'', ''preferredTime'', ''purpose''].
             truthy (field appointment_A k)"
      "doc_failures sample_lib ?a appointmentSchema_v1
             (AList.update ''preferredDate'' (JDate (Some 1736899200000)) appointment_A) = []"
      "doc_id sample_lib ?a appointment_A = CastValue 1"
      "Some (JOid 1) \<notin> set (ids (appointments empty_store))"
      "fault ?a = None"
    by (simp_all add: appointment_A_def sample_defs store_defs schema_defs)
  note t1 = appointment_preferredDate_is_a_date [of "post ''/api/appointment'' appointment_unparseable"
      appointment_unparseable "''next tuesday''" sample_lib ?a empty_store]
  note t2 = appointment_preferredDate_is_a_date [of "post ''/api/appointment'' appointment_A"
      appointment_A "''2025-01-15''" sample_lib ?a empty_store 1736899200000 1]
  from t1 b1 u have r1: "status (fst (post_appointment_v1 sample_lib ?a
        (post ''/api/appointment'' appointment_unparseable) empty_store)) = 400"
    by blast
  from t2 b2 v w have r2: "status (fst (post_appointment_v1 sample_lib ?a
        (post ''/api/appointment'' appointment_A) empty_store)) = 201"
    by blast
  from t2 b2 v r2 have r3: "\<exists>doc. appointments (fst (snd (post_appointment_v1 sample_lib ?a
        (post ''/api/appointment'' appointment_A) empty_store))) = appointments empty_store @ [doc]
         \<and> field doc ''preferredDate'' = Some (JDate (Some 1736899200000))"
    by blast
  from b1 u r1 b2 v r2 r3 show ?thesis
    by (intro conjI)
qed

section \<open>Identifiers and creation times\<close>

text \<open>
  C5 as stated does not hold: \<^verbatim>\<open>new Enquiry(req.body)\<close> passes the whole body to the
  model, so an \<^verbatim>\<open>_id\<close> and a \<^verbatim>\<open>createdAt\<close> that the body supplies are stored, not the
  generated identifier and the server's clock. Here the clock reads 1000 and the generated
  identifier is 1; the stored document has the caller's \<^verbatim>\<open>_id\<close> and \<^verbatim>\<open>createdAt\<close>.
\<close>

theorem caller_supplied_id_and_createdAt_counterexample:
  "now (sample_ambient 1000 1) = 1000 \<and> fresh_oid (sample_ambient 1000 1) = 1
   \<and> post_enquiry_v1 sample_lib (sample_ambient 1000 1)
        (post ''/api/enquiry''
          (enquiry_A @ [(''_id'', JStr ''0000000000000000000000ff''), (''createdAt'', JNum 0)]))
        empty_store
      = (\<lparr>status = 201, payload = JObj
           [(''success'', JBool True),
            (''message'', JStr ''Enquiry submitted successfully''),
            (''id'', JOid 255)]\<rparr>,
         empty_store\<lparr>enquiries :=
           [[(''_id'', JOid 255), (''name'', JStr ''A''), (''email'', JStr ''a@x.com''),
             (''message'', JStr ''hi''), (''type'', JStr ''general_enquiry''),
             (''createdAt'', JDate (Some 0))]]\<rparr>,
         [Info ''Enquiry form data received'' [], Info ''Enquiry saved with ID:'' [JOid 255]])"
  by (simp add: enquiry_A_def sample_defs store_defs schema_defs handler_defs
      sample_newDate_def sample_castObjectId_def hex_value_def)

text \<open>
  C5 (amended). For every request served by either variant:
  \<^item> a record it creates has the generated \<^verbatim>\<open>_id\<close> when the body supplies no
    \<^verbatim>\<open>_id\<close>, and the clock's time as \<^verbatim>\<open>createdAt\<close> when the body supplies no
    \<^verbatim>\<open>createdAt\<close>;
  \<^item> the \<^verbatim>\<open>_id\<close>s of a collection stay pairwise different (an insert with an \<^verbatim>\<open>_id\<close>
    that is in use fails), also over any sequence of requests;
  \<^item> the records stored before are still there afterwards, unchanged and in the same
    places: a request appends at most one record and no operation alters one, so
    \<^verbatim>\<open>_id\<close> and \<^verbatim>\<open>createdAt\<close> are set once, at insertion.

  The request is taken as it reaches the routes, with the body that the parsers have
  set; what comes before the routes (\<^verbatim>\<open>cors\<close>, the parsers, the error handler) does
  nothing to the store, so that the store after a request to the whole server is the store
  before it or the one its route leaves.
\<close>

theorem ids_and_createdAt_set_once:
  "prefix (enquiries s) (enquiries (fst (snd (router_v1 L P a req s))))
   \<and> prefix (appointments s) (appointments (fst (snd (router_v1 L P a req s))))
   \<and> (distinct (ids (enquiries s)) \<longrightarrow>
        distinct (ids (enquiries (fst (snd (router_v1 L P a req s))))))
   \<and> (distinct (ids (appointments s)) \<longrightarrow>
        distinct (ids (appointments (fst (snd (router_v1 L P a req s))))))
   \<and> (\<forall>doc. enquiries (fst (snd (router_v1 L P a req s))) = enquiries s @ [doc]
            \<or> appointments (fst (snd (router_v1 L P a req s))) = appointments s @ [doc] \<longrightarrow>
          (\<exists>b. body req = Some (JObj b)
            \<and> (field b ''_id'' = None \<longrightarrow> field doc ''_id'' = Some (JOid (fresh_oid a)))
            \<and> (field b ''createdAt'' = None \<longrightarrow>
                 field doc ''createdAt'' = Some (JDate (Some (now a))))))
   \<and> fst (snd (router_v2 L P a req s)) = fst (snd (router_v1 L P a req s))
   \<and> (distinct (ids (enquiries s)) \<and> distinct (ids (appointments s)) \<longrightarrow>
        distinct (ids (enquiries (serve_v1 L P rs s)))
      \<and> distinct (ids (appointments (serve_v1 L P rs s)))
      \<and> prefix (enquiries s) (enquiries (serve_v1 L P rs s))
      \<and> prefix (appointments s) (appointments (serve_v1 L P rs s)))
   \<and> serve_v2 L P rs s = serve_v1 L P rs s
   \<and> (fst (snd (app_v1 L P a req s)) = s
      \<or> (\<exists>b. parse_body 10485760 (req_upload req) = Inr b
           \<and> fst (snd (app_v1 L P a req s)) = fst (snd (router_v1 L P a (req\<lparr>body := b\<rparr>) s))))
   \<and> (fst (snd (app_v2 L P a req s)) = s
      \<or> (\<exists>b. parse_body 102400 (req_upload req) = Inr b
           \<and> fst (snd (app_v2 L P a req s)) = fst (snd (router_v2 L P a (req\<lparr>body := b\<rparr>) s))))"
proof -
  let ?s' = "fst (snd (router_v1 L P a req s))"
  have step: "appended L a req s ?s'"
    by (rule router_v1_appended)
  have c5: "\<forall>doc. enquiries ?s' = enquiries s @ [doc] \<or> appointments ?s' = appointments s @ [doc] \<longrightarrow>
          (\<exists>b. body req = Some (JObj b)
            \<and> (field b ''_id'' = None \<longrightarrow> field doc ''_id'' = Some (JOid (fresh_oid a)))
            \<and> (field b ''createdAt'' = None \<longrightarrow>
                 field doc ''createdAt'' = Some (JDate (Some (now a)))))"
    using appended_defaults [OF step] by blast
  have c7: "distinct (ids (enquiries s)) \<and> distinct (ids (appointments s)) \<longrightarrow>
        distinct (ids (enquiries (serve_v1 L P rs s)))
      \<and> distinct (ids (appointments (serve_v1 L P rs s)))
      \<and> prefix (enquiries s) (enquiries (serve_v1 L P rs s))
      \<and> prefix (appointments s) (appointments (serve_v1 L P rs s))"
    using serve_v1_invariant [of s L P rs] by blast
  note p = appended_prefix [OF step]
  note d = appended_distinct [OF step]
  from p [THEN conjunct1] p [THEN conjunct2] d [THEN conjunct1] d [THEN conjunct2] c5
    router_store_agree [of L P a req s] c7 serve_agree [of L P rs s] app_store [of L P a req s]
  show ?thesis
    by (intro conjI)
qed

theorem ids_and_createdAt_set_once_witness:
  "distinct (ids (enquiries empty_store))
   \<and> field enquiry_A ''_id'' = None \<and> field enquiry_A ''createdAt'' = None
   \<and> enquiries (fst (snd (router_v1 sample_lib (sample_process None None) (sample_ambient 1000 1)
        (post ''/api/enquiry'' enquiry_A) empty_store)))
      = enquiries empty_store @
        [[(''_id'', JOid 1), (''name'', JStr ''A''), (''email'', JStr ''a@x.com''),
          (''message'', JStr ''hi''), (''type'', JStr ''general_enquiry''),
          (''createdAt'', JDate (Some 1000))]]
   \<and> field [(''_id'', JOid 1), (''name'', JStr ''A''), (''email'', JStr ''a@x.com''),
          (''message'', JStr ''hi''), (''type'', JStr ''general_enquiry''),
          (''createdAt'', JDate (Some 1000))] ''createdAt''
      = Some (JDate (Some (now (sample_ambient 1000 1))))
   \<and> distinct (ids (enquiries (fst (snd (router_v1 sample_lib (sample_process None None)
        (sample_ambient 1000 1) (post ''/api/enquiry'' enquiry_A) empty_store)))))"
proof -
  let ?a = "sample_ambient 1000 1" and ?r = "post ''/api/enquiry'' enquiry_A"
  let ?s' = "fst (snd (router_v1 sample_lib (sample_process None None) ?a ?r empty_store))"
  let ?doc = "[(''_id'', JOid 1), (''name'', JStr ''A''), (''email'', JStr ''a@x.com''),
          (''message'', JStr ''hi''), (''type'', JStr ''general_enquiry''),
          (''createdAt'', JDate (Some 1000))]"
  have h: "distinct (ids (enquiries empty_store))"
      "field enquiry_A ''_id'' = None" "field enquiry_A ''createdAt'' = None"
    by (simp_all add: empty_store_def ids_def enquiry_A_def field_def)
  have route: "routeMatches sample_lib ''POST'' ''/api/enquiry'' ?r"
    by (simp add: sample_lib_def post_def)
  have handler: "fst (snd (post_enquiry_v1 sample_lib ?a ?r empty_store))
      = empty_store\<lparr>enquiries := [?doc]\<rparr>"
    by (simp add: enquiry_A_def sample_defs store_defs schema_defs handler_defs)
  from route have "?s' = fst (snd (post_enquiry_v1 sample_lib ?a ?r empty_store))"
    by (simp add: router_v1_def logged_def)
  with handler have run: "enquiries ?s' = enquiries empty_store @ [?doc]"
    by (simp add: empty_store_def)
  note t = ids_and_createdAt_set_once [of empty_store sample_lib "sample_process None None"
      ?a ?r "[]"]
  note d = t [THEN conjunct2, THEN conjunct2, THEN conjunct1, rule_format, OF h(1)]
  note c5 = t [THEN conjunct2, THEN conjunct2, THEN conjunct2, THEN conjunct2, THEN conjunct1,
      rule_format, OF disjI1, OF run]
  from c5 h(3) have c: "field ?doc ''createdAt'' = Some (JDate (Some (now ?a)))"
    by (auto simp add: body_post)
  from h run c d show ?thesis
    by (intro conjI)
qed

end
